theory Spec2Isabelle
  imports Main "HOL-Library.Sublist"
begin

section \<open>Data model of the page (src/app/page.tsx)\<close>

text \<open>
  The two interfaces of the page. JavaScript strings are modelled as HOL strings, whose
  characters are the code units below 256, read as Latin-1; text with a code unit above
  255 is outside the model. A \<^verbatim>\<open>Date\<close> is its millisecond count. The field \<open>recipeText\<close> is read from the untyped
  reply of the endpoint (\<^verbatim>\<open>data.recipeText\<close>), so it is \<open>None\<close> when the
  reply has no such field (\<^verbatim>\<open>undefined\<close>).
\<close>

record Ingredient =
  ingredient_id :: string
  ingredient_name :: string

record Recipe =
  recipe_id :: string
  ingredientsUsed :: "Ingredient list"
  recipeText :: "string option"
  generatedAt :: int

text \<open>The component state: one field per \<^verbatim>\<open>useState\<close> hook of \<^verbatim>\<open>HomePage\<close>.\<close>

record page_state =
  ingredients :: "Ingredient list"
  newItemName :: string
  searchTerm :: string
  basket :: "Ingredient list"
  recipeHistory :: "Recipe list"
  isGenerating :: bool
  error :: "string option"

definition INITIAL_INGREDIENTS :: "Ingredient list" where
  "INITIAL_INGREDIENTS =
    [\<lparr>ingredient_id = ''1'', ingredient_name = ''Chicken''\<rparr>,
     \<lparr>ingredient_id = ''2'', ingredient_name = ''Rice''\<rparr>,
     \<lparr>ingredient_id = ''3'', ingredient_name = ''Tomatoes''\<rparr>,
     \<lparr>ingredient_id = ''4'', ingredient_name = ''Onions''\<rparr>,
     \<lparr>ingredient_id = ''5'', ingredient_name = ''Garlic''\<rparr>,
     \<lparr>ingredient_id = ''6'', ingredient_name = ''Bell Peppers''\<rparr>,
     \<lparr>ingredient_id = ''7'', ingredient_name = ''Olive Oil''\<rparr>,
     \<lparr>ingredient_id = ''8'', ingredient_name = ''Pasta''\<rparr>,
     \<lparr>ingredient_id = ''9'', ingredient_name = ''Eggs''\<rparr>,
     \<lparr>ingredient_id = ''10'', ingredient_name = ''Milk''\<rparr>,
     \<lparr>ingredient_id = ''11'', ingredient_name = ''Cheese''\<rparr>,
     \<lparr>ingredient_id = ''12'', ingredient_name = ''Butter''\<rparr>]"

section \<open>The basket\<close>

text \<open>
  \<^verbatim>\<open>handleAddToBasket\<close> clears the error and appends the item;
  \<^verbatim>\<open>handleClearBasket\<close> empties the basket and clears the error.
\<close>

definition handleAddToBasket :: "Ingredient \<Rightarrow> page_state \<Rightarrow> page_state" where
  "handleAddToBasket itemToAdd s = s\<lparr>error := None, basket := basket s @ [itemToAdd]\<rparr>"

definition handleClearBasket :: "page_state \<Rightarrow> page_state" where
  "handleClearBasket s = s\<lparr>basket := [], error := None\<rparr>"

text \<open>
  \<^verbatim>\<open>Array.prototype.findIndex\<close>: the index of the first element that
  satisfies the predicate, \<open>-1\<close> when there is none.
\<close>

fun findIndex :: "('a \<Rightarrow> bool) \<Rightarrow> 'a list \<Rightarrow> int" where
  "findIndex p [] = -1"
| "findIndex p (x # xs) =
     (if p x then 0 else (let i = findIndex p xs in if i = -1 then -1 else i + 1))"

text \<open>
  \<^verbatim>\<open>xs.slice(start, end)\<close> and \<^verbatim>\<open>xs.slice(start)\<close> for the
  non-negative bounds the handler passes.
\<close>

definition slice :: "'a list \<Rightarrow> nat \<Rightarrow> nat \<Rightarrow> 'a list" where
  "slice xs start end = take (end - start) (drop start xs)"

definition slice_from :: "'a list \<Rightarrow> nat \<Rightarrow> 'a list" where
  "slice_from xs start = drop start xs"

definition remove_from_basket :: "string \<Rightarrow> Ingredient list \<Rightarrow> Ingredient list" where
  "remove_from_basket idToRemove prevBasket =
     (let indexToRemove = findIndex (\<lambda>item. ingredient_id item = idToRemove) prevBasket
      in if indexToRemove \<noteq> -1
         then slice prevBasket 0 (nat indexToRemove) @ slice_from prevBasket (nat indexToRemove + 1)
         else prevBasket)"

definition handleRemoveFromBasket :: "string \<Rightarrow> page_state \<Rightarrow> page_state" where
  "handleRemoveFromBasket idToRemove s = s\<lparr>basket := remove_from_basket idToRemove (basket s)\<rparr>"

text \<open>A run of \<^verbatim>\<open>handleAddToBasket\<close> calls, one per item, in order.\<close>

fun add_all :: "Ingredient list \<Rightarrow> page_state \<Rightarrow> page_state" where
  "add_all [] s = s"
| "add_all (x # xs) s = add_all xs (handleAddToBasket x s)"

text \<open>\<^verbatim>\<open>basket.length\<close>, the count shown by the page and tested by the generate action.\<close>

definition count :: "page_state \<Rightarrow> nat" where
  "count s = length (basket s)"

section \<open>Catalog search\<close>

text \<open>
  \<^verbatim>\<open>String.prototype.toLowerCase\<close> on Latin-1 text. The capital letters
  are A to Z (65 to 90) and the accented capitals 192 to 214 and 216 to 222; each moves
  to its small letter, 32 above. Every other character stays: the digits and signs, the
  small letters, the multiplication sign 215, the sharp s 223 and the y with diaeresis
  255, whose capitals lie outside Latin-1.
\<close>

definition capital :: "char \<Rightarrow> bool" where
  "capital c =
     (let n = (of_char c :: nat)
      in (65 \<le> n \<and> n \<le> 90) \<or> (192 \<le> n \<and> n \<le> 214) \<or> (216 \<le> n \<and> n \<le> 222))"

definition lower_char :: "char \<Rightarrow> char" where
  "lower_char c = (if capital c then char_of ((of_char c :: nat) + 32) else c)"

definition toLowerCase :: "string \<Rightarrow> string" where
  "toLowerCase s = map lower_char s"

text \<open>
  \<^verbatim>\<open>s.includes(t)\<close>: \<open>t\<close> occurs in \<open>s\<close> as a contiguous run of
  characters.
\<close>

definition includes_str :: "string \<Rightarrow> string \<Rightarrow> bool" where
  "includes_str s t = sublist t s"

text \<open>The list the page renders: the catalog filtered by the search term.\<close>

definition filteredIngredients :: "page_state \<Rightarrow> Ingredient list" where
  "filteredIngredients s =
     filter (\<lambda>ingredient.
        includes_str (toLowerCase (ingredient_name ingredient)) (toLowerCase (searchTerm s)))
       (ingredients s)"

section \<open>Values crossing the endpoint (src/unnamed/part\_000, the generate-recipe route)\<close>

text \<open>
  A parsed JSON value. A number is carried by the text that JavaScript's number-to-string
  conversion gives for it, an object by its properties in lookup order.
\<close>

datatype json =
    JNull
  | JBool bool
  | JNum string
  | JStr string
  | JArr "json list"
  | JObj "(string \<times> json) list"

text \<open>
  A thrown value, as the \<^verbatim>\<open>catch\<close> clause of the route tells them apart:
  an \<^verbatim>\<open>Error\<close> object with its message, a string, or anything else.
\<close>

datatype js_thrown =
    ErrorObject string
  | ThrownString string
  | ThrownOther

text \<open>
  What the route reads of the provider's result. \<open>response_text\<close> is the outcome of
  \<^verbatim>\<open>response.text()\<close>, which may throw; the safety ratings of a candidate
  are carried by the text \<^verbatim>\<open>JSON.stringify\<close> renders for them.
\<close>

record Candidate =
  finishReason :: "string option"
  safetyRatings :: "string option"

record GenerateContentResponse =
  response_text :: "js_thrown + string"
  candidates :: "Candidate list option"

record GenerateContentResult =
  response :: "GenerateContentResponse option"

text \<open>
  The reply of the route: \<^verbatim>\<open>NextResponse.json({ error }, { status })\<close> or
  \<^verbatim>\<open>NextResponse.json({ recipeText })\<close>, whose status is 200.
\<close>

record reply_body =
  body_error :: "string option"
  body_recipeText :: "string option"

record http_response =
  status :: nat
  body :: reply_body

definition json_error :: "string \<Rightarrow> nat \<Rightarrow> http_response" where
  "json_error e n = \<lparr>status = n, body = \<lparr>body_error = Some e, body_recipeText = None\<rparr>\<rparr>"

definition json_recipe :: "string \<Rightarrow> http_response" where
  "json_recipe t = \<lparr>status = 200, body = \<lparr>body_error = None, body_recipeText = Some t\<rparr>\<rparr>"

text \<open>
  What a request does besides answering: reading its body, and calling the provider
  with a prompt. Calls to \<^verbatim>\<open>console.error\<close> are left out.
\<close>

datatype server_event = ReadBody | GenerateContent string

section \<open>JavaScript conversions used by the route\<close>

text \<open>
  Reading the property \<open>k\<close> of a parsed JSON value, for the two keys the route reads
  (\<open>ingredients\<close>, \<open>name\<close>), which no prototype defines: \<open>null\<close> throws a
  \<^verbatim>\<open>TypeError\<close>, an object gives its own property, every other value gives
  \<^verbatim>\<open>undefined\<close> (\<open>None\<close>).
\<close>

definition quote :: "string \<Rightarrow> string" where
  "quote k = [CHR 0x27] @ k @ [CHR 0x27]"

fun get_property :: "json \<Rightarrow> string \<Rightarrow> js_thrown + json option" where
  "get_property JNull k =
     Inl (ErrorObject (''Cannot read properties of null (reading '' @ quote k @ '')''))"
| "get_property (JObj kvs) k = Inr (map_of kvs k)"
| "get_property v k = Inr None"

text \<open>\<^verbatim>\<open>xs.join(sep)\<close> on texts.\<close>

fun join :: "string \<Rightarrow> string list \<Rightarrow> string" where
  "join sep [] = []"
| "join sep [x] = x"
| "join sep (x # y # ys) = x @ sep @ join sep (y # ys)"

text \<open>
  The conversion of a parsed JSON value to a string. An array is its elements joined by a
  comma, \<open>null\<close> elements giving the empty text; an object is
  \<^verbatim>\<open>[object Object]\<close>, unless it has a property \<open>toString\<close> of its own,
  which is never callable, so that the conversion throws.
\<close>

fun ToString :: "json \<Rightarrow> js_thrown + string"
  and element_texts :: "json list \<Rightarrow> js_thrown + string list" where
  "ToString JNull = Inr ''null''"
| "ToString (JBool b) = Inr (if b then ''true'' else ''false'')"
| "ToString (JNum t) = Inr t"
| "ToString (JStr s) = Inr s"
| "ToString (JArr xs) =
     (case element_texts xs of Inl e \<Rightarrow> Inl e | Inr ts \<Rightarrow> Inr (join '','' ts))"
| "ToString (JObj kvs) =
     (if map_of kvs ''toString'' \<noteq> None
      then Inl (ErrorObject ''Cannot convert object to primitive value'')
      else Inr ''[object Object]'')"
| "element_texts [] = Inr []"
| "element_texts (x # xs) =
     (case (if x = JNull then Inr [] else ToString x) of
        Inl e \<Rightarrow> Inl e
      | Inr t \<Rightarrow> (case element_texts xs of Inl e \<Rightarrow> Inl e | Inr ts \<Rightarrow> Inr (t # ts)))"

text \<open>The text \<^verbatim>\<open>join\<close> gives an element: nothing for undefined and null.\<close>

definition name_text :: "json option \<Rightarrow> js_thrown + string" where
  "name_text v =
     (case v of None \<Rightarrow> Inr [] | Some x \<Rightarrow> if x = JNull then Inr [] else ToString x)"

text \<open>\<^verbatim>\<open>xs.map(f)\<close> when \<open>f\<close> may throw: the first throw ends the map.\<close>

fun try_map :: "('a \<Rightarrow> 'e + 'b) \<Rightarrow> 'a list \<Rightarrow> 'e + 'b list" where
  "try_map f [] = Inr []"
| "try_map f (x # xs) =
     (case f x of
        Inl e \<Rightarrow> Inl e
      | Inr y \<Rightarrow> (case try_map f xs of Inl e \<Rightarrow> Inl e | Inr ys \<Rightarrow> Inr (y # ys)))"

text \<open>Decimal digits of a natural number (a status code, a millisecond count).\<close>

definition digit :: "nat \<Rightarrow> char" where
  "digit d = (''0123456789'' ! d)"

fun decimal :: "nat \<Rightarrow> string" where
  "decimal n = (if n < 10 then [digit n] else decimal (n div 10) @ [digit (n mod 10)])"

section \<open>The route handler POST\<close>

text \<open>\<^verbatim>\<open>process.env.GEMINI_API_KEY || ""\<close>\<close>

definition API_KEY :: "string option \<Rightarrow> string" where
  "API_KEY env_key = (case env_key of None \<Rightarrow> [] | Some k \<Rightarrow> if k = [] then [] else k)"

text \<open>
  \<^verbatim>\<open>const { ingredients } = await request.json()\<close>, once the body is
  parsed: destructuring \<open>null\<close> throws.
\<close>

definition destructure_ingredients :: "json \<Rightarrow> js_thrown + json option" where
  "destructure_ingredients parsed =
     (case parsed of
        JNull \<Rightarrow> Inl (ErrorObject (''Cannot destructure property '' @ quote ''ingredients'' @
                   '' of '' @ quote ''(intermediate value)'' @ '' as it is null.''))
      | _ \<Rightarrow> get_property parsed ''ingredients'')"

text \<open>
  The three tests of the validation, in the order of the source, on the value \<open>posted\<close>
  that the destructuring binds to \<^verbatim>\<open>ingredients\<close>.
\<close>

definition falsy :: "json option \<Rightarrow> bool" where
  "falsy v =
     (case v of
        None \<Rightarrow> True
      | Some JNull \<Rightarrow> True
      | Some (JBool b) \<Rightarrow> \<not> b
      | Some (JNum t) \<Rightarrow> t = ''0''
      | Some (JStr s) \<Rightarrow> s = []
      | Some _ \<Rightarrow> False)"

definition isArray :: "json option \<Rightarrow> bool" where
  "isArray v = (case v of Some (JArr xs) \<Rightarrow> True | _ \<Rightarrow> False)"

definition array_elements :: "json option \<Rightarrow> json list" where
  "array_elements v = (case v of Some (JArr xs) \<Rightarrow> xs | _ \<Rightarrow> [])"

definition invalid_ingredients :: "json option \<Rightarrow> bool" where
  "invalid_ingredients posted \<longleftrightarrow>
     falsy posted \<or> \<not> isArray posted \<or> length (array_elements posted) = 0"

text \<open>\<^verbatim>\<open>ingredients.map((ing) => ing.name).join(', ')\<close>\<close>

definition ingredientNames :: "json list \<Rightarrow> js_thrown + string" where
  "ingredientNames posted =
     (case try_map (\<lambda>ing. get_property ing ''name'') posted of
        Inl e \<Rightarrow> Inl e
      | Inr names \<Rightarrow>
          (case try_map name_text names of
             Inl e \<Rightarrow> Inl e
           | Inr texts \<Rightarrow> Inr (join '', '' texts)))"

text \<open>The template literal of the prompt, split at its one interpolation.\<close>

definition prompt_head :: string where
  "prompt_head =
''\<newline>'' @
''      You are a helpful recipe assistant.\<newline>'' @
''      Generate a simple recipe using ONLY the following ingredients: ''"

definition prompt_tail :: string where
  "prompt_tail =
''.\<newline>'' @
''      Provide a title for the recipe, a list of the ingredients provided, and step-by-step instructions.\<newline>'' @
''      Keep the instructions concise and easy to follow.\<newline>'' @
''      If the ingredients don't seem sufficient for a meaningful recipe, suggest adding 1-2 common pantry staples (like salt, pepper, oil, water) if necessary, but prioritize using only the provided ingredients.\<newline>'' @
''      Format the output clearly. Example:\<newline>'' @
''\<newline>'' @
''      **Recipe Title**\<newline>'' @
''\<newline>'' @
''      **Ingredients:**\<newline>'' @
''      * Ingredient 1\<newline>'' @
''      * Ingredient 2\<newline>'' @
''      * ...\<newline>'' @
''\<newline>'' @
''      **Instructions:**\<newline>'' @
''      1. Step 1...\<newline>'' @
''      2. Step 2...\<newline>'' @
''      3. Step 3...\<newline>'' @
''    ''"

definition prompt :: "string \<Rightarrow> string" where
  "prompt names = prompt_head @ names @ prompt_tail"

text \<open>
  The branch for a response without text. \<^verbatim>\<open>candidates?.[0]\<close> is the first
  candidate when there is one; a finish reason counts when it is a non-empty string.
\<close>

definition first_candidate :: "GenerateContentResponse \<Rightarrow> Candidate option" where
  "first_candidate r =
     (case candidates r of None \<Rightarrow> None | Some [] \<Rightarrow> None | Some (c # cs) \<Rightarrow> Some c)"

definition truthy :: "string option \<Rightarrow> bool" where
  "truthy v = (case v of None \<Rightarrow> False | Some t \<Rightarrow> t \<noteq> [])"

definition or_empty :: "string option \<Rightarrow> string" where
  "or_empty v = (case v of None \<Rightarrow> [] | Some t \<Rightarrow> t)"

definition reasonInfo :: "string option \<Rightarrow> string" where
  "reasonInfo reason =
     (if truthy reason then '' (Finish Reason: '' @ or_empty reason @ '')'' else [])"

definition safetyInfo :: "string option \<Rightarrow> string" where
  "safetyInfo ratings =
     (case ratings of None \<Rightarrow> [] | Some t \<Rightarrow> '' (Safety Ratings: '' @ t @ '')'')"

definition errorMessage :: "string option \<Rightarrow> string" where
  "errorMessage reason =
     (if reason = Some ''SAFETY'' then ''Failed to generate recipe due to safety settings.''
      else if truthy reason then ''Failed to generate recipe. '' @ reasonInfo reason
      else ''Failed to generate recipe. The AI response was empty or blocked.'')"

definition no_text_reply :: "GenerateContentResponse \<Rightarrow> http_response" where
  "no_text_reply r =
     (let reason = (case first_candidate r of None \<Rightarrow> None | Some c \<Rightarrow> finishReason c);
          ratings = (case first_candidate r of None \<Rightarrow> None | Some c \<Rightarrow> safetyRatings c)
      in json_error (errorMessage reason @ safetyInfo ratings) 500)"

text \<open>
  The part of the handler after the provider has answered. \<^verbatim>\<open>response.text()\<close>
  is called for the test and again for the reply; both calls give \<open>response_text\<close>.
\<close>

definition interpret_result :: "GenerateContentResult \<Rightarrow> js_thrown + http_response" where
  "interpret_result result =
     (case response result of
        None \<Rightarrow> Inr (json_error ''Failed to generate recipe. No response object from AI.'' 500)
      | Some r \<Rightarrow>
          (case response_text r of
             Inl e \<Rightarrow> Inl e
           | Inr t \<Rightarrow> if t = [] then Inr (no_text_reply r) else Inr (json_recipe t)))"

text \<open>
  The \<^verbatim>\<open>try\<close> block: the outcome is a reply or the value thrown, together
  with what was done. \<open>request\<close> is the outcome of \<^verbatim>\<open>request.json()\<close>,
  \<open>generateContent\<close> the provider call.
\<close>

definition POST_try ::
  "(js_thrown + json) \<Rightarrow> (string \<Rightarrow> js_thrown + GenerateContentResult) \<Rightarrow>
     (js_thrown + http_response) \<times> server_event list" where
  "POST_try request generateContent =
     (case request of
        Inl e \<Rightarrow> (Inl e, [ReadBody])
      | Inr parsed \<Rightarrow>
          (case destructure_ingredients parsed of
             Inl e \<Rightarrow> (Inl e, [ReadBody])
           | Inr posted \<Rightarrow>
               if invalid_ingredients posted
               then (Inr (json_error ''Missing or invalid ingredients list'' 400), [ReadBody])
               else
                 (case ingredientNames (array_elements posted) of
                    Inl e \<Rightarrow> (Inl e, [ReadBody])
                  | Inr names \<Rightarrow>
                      (case generateContent (prompt names) of
                         Inl e \<Rightarrow> (Inl e, [ReadBody, GenerateContent (prompt names)])
                       | Inr result \<Rightarrow>
                           (interpret_result result, [ReadBody, GenerateContent (prompt names)])))))"

text \<open>The \<^verbatim>\<open>catch\<close> clause.\<close>

definition catch_reply :: "js_thrown \<Rightarrow> http_response" where
  "catch_reply thrown =
     (let message =
            (case thrown of
               ErrorObject m \<Rightarrow> m
             | ThrownString t \<Rightarrow> t
             | ThrownOther \<Rightarrow> ''Unknown error'')
      in json_error (''Failed to generate recipe. '' @ message) 500)"

definition POST ::
  "string option \<Rightarrow> (js_thrown + json) \<Rightarrow> (string \<Rightarrow> js_thrown + GenerateContentResult) \<Rightarrow>
     http_response \<times> server_event list" where
  "POST env_key request generateContent =
     (if API_KEY env_key = [] then (json_error ''API key not configured'' 500, [])
      else
        (case POST_try request generateContent of
           (Inl thrown, events) \<Rightarrow> (catch_reply thrown, events)
         | (Inr reply, events) \<Rightarrow> (reply, events)))"

section \<open>Generating a recipe from the page\<close>

text \<open>
  The outcome of \<^verbatim>\<open>fetch\<close> followed by \<^verbatim>\<open>response.json()\<close>: either
  of them rejects with an error, of which the handler reads the message, or the reply of
  the route arrives.
\<close>

datatype fetch_result = Rejected string | Responded http_response

definition ok :: "http_response \<Rightarrow> bool" where
  "ok r \<longleftrightarrow> 200 \<le> status r \<and> status r \<le> 299"

text \<open>The body the page posts, as the route parses it.\<close>

definition ingredient_json :: "Ingredient \<Rightarrow> json" where
  "ingredient_json i =
     JObj [(''id'', JStr (ingredient_id i)), (''name'', JStr (ingredient_name i))]"

definition request_body :: "Ingredient list \<Rightarrow> json" where
  "request_body b = JObj [(''ingredients'', JArr (map ingredient_json b))]"

text \<open>
  The \<^verbatim>\<open>try\<close> block up to the reply: \<open>Inl\<close> the message of the error that
  reaches the \<^verbatim>\<open>catch\<close> clause, \<open>Inr\<close> the reply's data.
\<close>

definition received :: "fetch_result \<Rightarrow> string + reply_body" where
  "received res =
     (case res of
        Rejected m \<Rightarrow> Inl m
      | Responded r \<Rightarrow>
          if \<not> ok r
          then Inl (if truthy (body_error (body r)) then or_empty (body_error (body r))
                    else ''HTTP error! status: '' @ decimal (status r))
          else Inr (body r))"

text \<open>
  The handler runs in two parts, before and after the network round trip. The first part
  either refuses (empty basket) or posts the basket.
\<close>

datatype generate_step = Refused page_state | Posted page_state json

definition handleGenerateRecipe_begin :: "page_state \<Rightarrow> generate_step" where
  "handleGenerateRecipe_begin s =
     (if length (basket s) = 0
      then Refused (s\<lparr>error := Some ''Your basket is empty. Add some ingredients first!''\<rparr>)
      else Posted (s\<lparr>error := None, isGenerating := True\<rparr>) (request_body (basket s)))"

text \<open>
  The second part updates the state \<open>s\<close> current when the reply arrives; \<open>called_basket\<close>
  is the basket the handler was called with, \<open>now_id\<close> and \<open>now_date\<close> are the two
  readings of the clock.
\<close>

definition handleGenerateRecipe_resume ::
  "Ingredient list \<Rightarrow> fetch_result \<Rightarrow> nat \<Rightarrow> nat \<Rightarrow> page_state \<Rightarrow> page_state" where
  "handleGenerateRecipe_resume called_basket res now_id now_date s =
     (case received res of
        Inr data \<Rightarrow>
          (let newRecipe = \<lparr>recipe_id = ''recipe_'' @ decimal now_id,
                            ingredientsUsed = called_basket,
                            recipeText = body_recipeText data,
                            generatedAt = int now_date\<rparr>
           in s\<lparr>recipeHistory := newRecipe # recipeHistory s, basket := [],
                isGenerating := False\<rparr>)
      | Inl message \<Rightarrow>
          s\<lparr>error := Some (if message \<noteq> [] then message
                           else ''An unexpected error occurred while generating the recipe.''),
            isGenerating := False\<rparr>)"

text \<open>
  The whole handler with nothing else happening in between: the final state and the
  requests sent. \<open>network\<close> answers a posted body.
\<close>

definition handleGenerateRecipe ::
  "page_state \<Rightarrow> (json \<Rightarrow> fetch_result) \<Rightarrow> nat \<Rightarrow> nat \<Rightarrow> page_state \<times> json list" where
  "handleGenerateRecipe s network now_id now_date =
     (case handleGenerateRecipe_begin s of
        Refused s' \<Rightarrow> (s', [])
      | Posted s' req \<Rightarrow>
          (handleGenerateRecipe_resume (basket s) (network req) now_id now_date s', [req]))"

text \<open>The network when the request reaches the route and its reply comes back.\<close>

definition route ::
  "string option \<Rightarrow> (string \<Rightarrow> js_thrown + GenerateContentResult) \<Rightarrow> json \<Rightarrow> fetch_result" where
  "route env_key generateContent req = Responded (fst (POST env_key (Inr req) generateContent))"

section \<open>Initial state, fixtures and notions used in the statements\<close>

text \<open>
  The initial values of the hooks. The one recipe of \<^verbatim>\<open>INITIAL_RECIPE_HISTORY\<close>
  is dated two hours before the moment \<open>loaded_at\<close> at which the module was loaded;
  the one letter of its text outside ASCII is the Latin-1 character \<open>0xE9\<close>.
\<close>

definition INITIAL_RECIPE_HISTORY :: "nat \<Rightarrow> Recipe list" where
  "INITIAL_RECIPE_HISTORY loaded_at =
     [\<lparr>recipe_id = ''hist_1'',
       ingredientsUsed = [INITIAL_INGREDIENTS ! 0, INITIAL_INGREDIENTS ! 1],
       recipeText = Some (''A simple recipe for Chicken & Rice:\<newline>1. Cook rice.\<newline>2. Saut'' @
         [CHR 0xE9] @ '' chicken with onions and garlic.\<newline>3. Combine and serve.''),
       generatedAt = int loaded_at - 3600000 * 2\<rparr>]"

definition initial_state :: "nat \<Rightarrow> page_state" where
  "initial_state loaded_at =
     \<lparr>ingredients = INITIAL_INGREDIENTS, newItemName = [], searchTerm = [], basket = [],
      recipeHistory = INITIAL_RECIPE_HISTORY loaded_at, isGenerating = False, error = None\<rparr>"

text \<open>
  For examples: a provider that answers every prompt alike, one that always throws, and a
  network on which every fetch is rejected.
\<close>

definition provider_returning ::
  "GenerateContentResult \<Rightarrow> string \<Rightarrow> js_thrown + GenerateContentResult" where
  "provider_returning result p = Inr result"

definition provider_throwing ::
  "js_thrown \<Rightarrow> string \<Rightarrow> js_thrown + GenerateContentResult" where
  "provider_throwing thrown p = Inl thrown"

definition unreachable :: "string \<Rightarrow> json \<Rightarrow> fetch_result" where
  "unreachable message req = Rejected message"

text \<open>
  What one element of the posted array contributes to the list of names: its \<open>name\<close>
  is read, then converted as \<^verbatim>\<open>join\<close> converts an element.
\<close>

definition element_name_text :: "json \<Rightarrow> js_thrown + string" where
  "element_name_text e =
     (case get_property e ''name'' of Inl thrown \<Rightarrow> Inl thrown | Inr v \<Rightarrow> name_text v)"

text \<open>
  The text an element of the posted array contributes to the list of names when its
  \<open>name\<close> is a string, and the empty text otherwise.
\<close>

definition posted_name :: "json \<Rightarrow> string" where
  "posted_name e = (case get_property e ''name'' of Inr (Some (JStr s)) \<Rightarrow> s | _ \<Rightarrow> [])"

text \<open>
  The case-insensitive substring match of the specification, stated on the characters
  themselves, without lower-casing either text. \<open>capital_of c d\<close> says that \<open>d\<close> is
  a small letter of Latin-1 (a to z, or an accented one from 224 to 254 other than the
  division sign 247) and \<open>c\<close> its capital, 32 below. Two characters are the same letter
  when they are equal or one is the capital of the other; a term occurs in a name when, at
  some place of the name, each character of the term meets the same letter.
\<close>

definition capital_of :: "char \<Rightarrow> char \<Rightarrow> bool" where
  "capital_of c d \<longleftrightarrow>
     (let m = (of_char c :: nat); n = (of_char d :: nat)
      in m + 32 = n \<and>
         ((97 \<le> n \<and> n \<le> 122) \<or> (224 \<le> n \<and> n \<le> 246) \<or> (248 \<le> n \<and> n \<le> 254)))"

definition same_letter :: "char \<Rightarrow> char \<Rightarrow> bool" where
  "same_letter c d \<longleftrightarrow> c = d \<or> capital_of c d \<or> capital_of d c"

fun starts_ignoring_case :: "string \<Rightarrow> string \<Rightarrow> bool" where
  "starts_ignoring_case [] n = True"
| "starts_ignoring_case (c # cs) [] = False"
| "starts_ignoring_case (c # cs) (d # ds) = (same_letter c d \<and> starts_ignoring_case cs ds)"

fun occurs_ignoring_case :: "string \<Rightarrow> string \<Rightarrow> bool" where
  "occurs_ignoring_case t [] = (t = [])"
| "occurs_ignoring_case t (d # ds) = (starts_ignoring_case t (d # ds) \<or> occurs_ignoring_case t ds)"

text \<open>The number of places at which the text \<open>t\<close> occurs in \<open>s\<close>.\<close>

fun occurrences :: "string \<Rightarrow> string \<Rightarrow> nat" where
  "occurrences t [] = (if t = [] then 1 else 0)"
| "occurrences t (c # cs) = (if prefix t (c # cs) then 1 else 0) + occurrences t cs"

section \<open>Properties of the basket\<close>

lemma findIndex_ge: "findIndex p xs \<ge> -1"
  by (induction xs) (auto simp: Let_def)

lemma findIndex_absent: "findIndex p xs = -1 \<longleftrightarrow> (\<forall>x \<in> set xs. \<not> p x)"
proof (induction xs)
  case Nil
  show ?case by simp
next
  case (Cons x xs)
  have "findIndex p xs + 1 \<noteq> -1"
    using findIndex_ge [of p xs] by arith
  with Cons show ?case by (auto simp: Let_def)
qed

lemma findIndex_takeWhile:
  "\<exists>x \<in> set xs. p x \<Longrightarrow> findIndex p xs = int (length (takeWhile (\<lambda>x. \<not> p x) xs))"
proof (induction xs)
  case Nil
  then show ?case by simp
next
  case (Cons x xs)
  show ?case
  proof (cases "p x")
    case True
    then show ?thesis by simp
  next
    case False
    with Cons.prems have ex: "\<exists>x \<in> set xs. p x" by simp
    then have "findIndex p xs \<noteq> -1" by (simp add: findIndex_absent)
    with False Cons.IH [OF ex] show ?thesis by (simp add: Let_def)
  qed
qed

lemma remove_present:
  assumes "\<exists>x \<in> set b. ingredient_id x = i"
  shows "remove_from_basket i b =
           takeWhile (\<lambda>x. ingredient_id x \<noteq> i) b @ tl (dropWhile (\<lambda>x. ingredient_id x \<noteq> i) b)"
proof -
  let ?p = "\<lambda>x. ingredient_id x = i"
  let ?n = "length (takeWhile (\<lambda>x. \<not> ?p x) b)"
  have idx: "findIndex ?p b = int ?n"
    using assms by (rule findIndex_takeWhile)
  have t: "take ?n b = takeWhile (\<lambda>x. \<not> ?p x) b"
    by (rule takeWhile_eq_take [symmetric])
  have d: "drop (Suc ?n) b = tl (dropWhile (\<lambda>x. \<not> ?p x) b)"
    by (simp add: dropWhile_eq_drop drop_Suc tl_drop)
  show ?thesis
    using idx t d by (simp add: remove_from_basket_def slice_def slice_from_def)
qed

lemma remove_absent:
  assumes "\<forall>x \<in> set b. ingredient_id x \<noteq> i"
  shows "remove_from_basket i b = b"
proof -
  have "findIndex (\<lambda>x. ingredient_id x = i) b = -1"
    using assms by (simp add: findIndex_absent)
  then show ?thesis by (simp add: remove_from_basket_def)
qed

lemma basket_add_all: "basket (add_all xs s) = basket s @ xs"
  by (induction xs arbitrary: s) (simp_all add: handleAddToBasket_def)

text \<open>
  Claim C8. After N additions and no removal the basket holds N entries (and N more than
  before in general). Removing an id that is present takes out the first entry with that
  id and nothing else, so the count drops by exactly one; removing an id that is absent
  leaves the state as it was.
\<close>

theorem basket_count_add_remove:
  "count (add_all xs (s\<lparr>basket := []\<rparr>)) = length xs \<and>
   count (add_all xs s) = count s + length xs \<and>
   ((\<exists>x \<in> set (basket s). ingredient_id x = i) \<longrightarrow>
      Suc (count (handleRemoveFromBasket i s)) = count s \<and>
      (\<exists>pre x post. basket s = pre @ x # post \<and> ingredient_id x = i \<and>
         (\<forall>y \<in> set pre. ingredient_id y \<noteq> i) \<and>
         basket (handleRemoveFromBasket i s) = pre @ post)) \<and>
   ((\<forall>x \<in> set (basket s). ingredient_id x \<noteq> i) \<longrightarrow> handleRemoveFromBasket i s = s)"
proof (intro conjI impI)
  show "count (add_all xs (s\<lparr>basket := []\<rparr>)) = length xs"
    by (simp add: count_def basket_add_all)
  show "count (add_all xs s) = count s + length xs"
    by (simp add: count_def basket_add_all)
next
  assume present: "\<exists>x \<in> set (basket s). ingredient_id x = i"
  let ?b = "basket s"
  let ?pre = "takeWhile (\<lambda>x. ingredient_id x \<noteq> i) ?b"
  let ?rest = "dropWhile (\<lambda>x. ingredient_id x \<noteq> i) ?b"
  from present have ne: "?rest \<noteq> []" by (auto simp: dropWhile_eq_Nil_conv)
  then obtain x post where rest: "?rest = x # post" by (cases ?rest) auto
  have hit: "ingredient_id x = i"
    using hd_dropWhile [OF ne] rest by simp
  have split: "?b = ?pre @ x # post"
    using takeWhile_dropWhile_id [of "\<lambda>x. ingredient_id x \<noteq> i" ?b] rest by simp
  have before: "\<forall>y \<in> set ?pre. ingredient_id y \<noteq> i"
    by (auto dest: set_takeWhileD)
  have removed: "basket (handleRemoveFromBasket i s) = ?pre @ post"
    using remove_present [OF present] rest by (simp add: handleRemoveFromBasket_def)
  show "\<exists>pre x post. basket s = pre @ x # post \<and> ingredient_id x = i \<and>
         (\<forall>y \<in> set pre. ingredient_id y \<noteq> i) \<and>
         basket (handleRemoveFromBasket i s) = pre @ post"
    using split hit before removed by blast
  have "length ?b = Suc (length (?pre @ post))"
    by (subst split) simp
  with removed show "Suc (count (handleRemoveFromBasket i s)) = count s"
    by (simp add: count_def)
next
  assume "\<forall>x \<in> set (basket s). ingredient_id x \<noteq> i"
  then show "handleRemoveFromBasket i s = s"
    by (simp add: handleRemoveFromBasket_def remove_absent)
qed

theorem basket_count_add_remove_witness:
  "count (add_all [INITIAL_INGREDIENTS ! 0, INITIAL_INGREDIENTS ! 1, INITIAL_INGREDIENTS ! 0]
            (initial_state 0)) = 3 \<and>
   (\<exists>x \<in> set (basket (add_all [INITIAL_INGREDIENTS ! 0, INITIAL_INGREDIENTS ! 1,
                INITIAL_INGREDIENTS ! 0] (initial_state 0))). ingredient_id x = ''1'') \<and>
   Suc (count (handleRemoveFromBasket ''1''
         (add_all [INITIAL_INGREDIENTS ! 0, INITIAL_INGREDIENTS ! 1, INITIAL_INGREDIENTS ! 0]
            (initial_state 0)))) = 3 \<and>
   ''9'' \<notin> ingredient_id ` set (basket (add_all [INITIAL_INGREDIENTS ! 0,
                INITIAL_INGREDIENTS ! 1, INITIAL_INGREDIENTS ! 0] (initial_state 0))) \<and>
   handleRemoveFromBasket ''9''
     (add_all [INITIAL_INGREDIENTS ! 0, INITIAL_INGREDIENTS ! 1, INITIAL_INGREDIENTS ! 0]
        (initial_state 0)) =
     add_all [INITIAL_INGREDIENTS ! 0, INITIAL_INGREDIENTS ! 1, INITIAL_INGREDIENTS ! 0]
       (initial_state 0)"
proof -
  let ?s = "add_all [INITIAL_INGREDIENTS ! 0, INITIAL_INGREDIENTS ! 1, INITIAL_INGREDIENTS ! 0]
              (initial_state 0)"
  have b: "basket ?s = [INITIAL_INGREDIENTS ! 0, INITIAL_INGREDIENTS ! 1, INITIAL_INGREDIENTS ! 0]"
    unfolding basket_add_all by (simp add: initial_state_def)
  have c: "count ?s = 3"
    unfolding count_def b by simp
  have present: "\<exists>x \<in> set (basket ?s). ingredient_id x = ''1''"
    unfolding b by (simp add: INITIAL_INGREDIENTS_def)
  have absent: "\<forall>x \<in> set (basket ?s). ingredient_id x \<noteq> ''9''"
    unfolding b by (simp add: INITIAL_INGREDIENTS_def)
  from basket_count_add_remove [of "[]" ?s "''1''"] present
  have one: "Suc (count (handleRemoveFromBasket ''1'' ?s)) = count ?s"
    by blast
  from basket_count_add_remove [of "[]" ?s "''9''"] absent
  have nine: "handleRemoveFromBasket ''9'' ?s = ?s"
    by blast
  have absent': "''9'' \<notin> ingredient_id ` set (basket ?s)"
  proof
    assume "''9'' \<in> ingredient_id ` set (basket ?s)"
    then obtain x where x: "x \<in> set (basket ?s)" and eq: "''9'' = ingredient_id x"
      by (rule imageE)
    from absent x have "ingredient_id x \<noteq> ''9''"
      by (rule bspec)
    with eq show False
      by simp
  qed
  from one have one': "Suc (count (handleRemoveFromBasket ''1'' ?s)) = 3"
    unfolding c .
  show ?thesis
    by (intro conjI c present absent' one' nine)
qed

section \<open>Properties of the route\<close>


lemma API_KEY_empty: "API_KEY env_key = [] \<longleftrightarrow> env_key = None \<or> env_key = Some []"
  by (simp add: API_KEY_def split: option.splits)

lemma names_of_page_basket:
  "try_map (\<lambda>ing. get_property ing ''name'') (map ingredient_json b) =
     Inr (map (\<lambda>i. Some (JStr (ingredient_name i))) b)"
  by (induction b) (simp_all add: ingredient_json_def)

lemma texts_of_page_basket:
  "try_map name_text (map (\<lambda>i. Some (JStr (ingredient_name i))) b) = Inr (map ingredient_name b)"
  by (induction b) (simp_all add: name_text_def)

lemma ingredientNames_page:
  "ingredientNames (map ingredient_json b) = Inr (join '', '' (map ingredient_name b))"
  by (simp add: ingredientNames_def names_of_page_basket texts_of_page_basket)

lemma POST_try_page:
  "b \<noteq> [] \<Longrightarrow>
   POST_try (Inr (request_body b)) gen =
     ((case gen (prompt (join '', '' (map ingredient_name b))) of
         Inl e \<Rightarrow> Inl e
       | Inr result \<Rightarrow> interpret_result result),
      [ReadBody, GenerateContent (prompt (join '', '' (map ingredient_name b)))])"
  by (simp add: POST_try_def request_body_def destructure_ingredients_def invalid_ingredients_def
      falsy_def isArray_def array_elements_def ingredientNames_page split: sum.splits)

lemma POST_page:
  "API_KEY env_key \<noteq> [] \<Longrightarrow> b \<noteq> [] \<Longrightarrow>
   POST env_key (Inr (request_body b)) gen =
     ((case gen (prompt (join '', '' (map ingredient_name b))) of
         Inl e \<Rightarrow> catch_reply e
       | Inr result \<Rightarrow> (case interpret_result result of Inl e \<Rightarrow> catch_reply e | Inr reply \<Rightarrow> reply)),
      [ReadBody, GenerateContent (prompt (join '', '' (map ingredient_name b)))])"
  by (simp add: POST_def POST_try_page split: sum.splits)

lemma null_element_throws:
  "JNull \<in> set ys \<Longrightarrow>
   try_map (\<lambda>ing. get_property ing ''name'') ys =
     Inl (ErrorObject (''Cannot read properties of null (reading '' @ quote ''name'' @ '')''))"
proof (induction ys)
  case Nil
  then show ?case by simp
next
  case (Cons y ys)
  show ?case
  proof (cases "y = JNull")
    case True
    then show ?thesis by simp
  next
    case False
    with Cons.prems have "JNull \<in> set ys" by simp
    then have ih: "try_map (\<lambda>ing. get_property ing ''name'') ys =
       Inl (ErrorObject (''Cannot read properties of null (reading '' @ quote ''name'' @ '')''))"
      by (rule Cons.IH)
    from False obtain v where "get_property y ''name'' = Inr v"
      by (cases y) simp_all
    with ih show ?thesis by simp
  qed
qed

lemma blank_names:
  assumes "\<forall>e \<in> set ys. e \<noteq> JNull \<and>
             (get_property e ''name'' = Inr None \<or> (\<exists>s. get_property e ''name'' = Inr (Some (JStr s))))"
  shows "ingredientNames ys = Inr (join '', '' (map posted_name ys))"
proof -
  have "\<exists>vs. try_map (\<lambda>ing. get_property ing ''name'') ys = Inr vs \<and>
          try_map name_text vs = Inr (map posted_name ys)"
    using assms
  proof (induction ys)
    case Nil
    show ?case by simp
  next
    case (Cons y ys)
    then obtain vs where vs: "try_map (\<lambda>ing. get_property ing ''name'') ys = Inr vs"
      "try_map name_text vs = Inr (map posted_name ys)"
      by auto
    from Cons.prems
    have "get_property y ''name'' = Inr None \<or> (\<exists>s. get_property y ''name'' = Inr (Some (JStr s)))"
      by simp
    then show ?case
    proof
      assume y: "get_property y ''name'' = Inr None"
      then have "posted_name y = []" by (simp add: posted_name_def)
      moreover have "name_text None = Inr []" by (simp add: name_text_def)
      ultimately show ?thesis using vs y by simp
    next
      assume "\<exists>s. get_property y ''name'' = Inr (Some (JStr s))"
      then obtain s where y: "get_property y ''name'' = Inr (Some (JStr s))" ..
      then have "posted_name y = s" by (simp add: posted_name_def)
      moreover have "name_text (Some (JStr s)) = Inr s" by (simp add: name_text_def)
      ultimately show ?thesis using vs y by simp
    qed
  qed
  then show ?thesis by (auto simp: ingredientNames_def)
qed

lemma interpret_status:
  "interpret_result result = Inr reply \<Longrightarrow> status reply = 500 \<or> status reply = 200"
  by (auto simp: interpret_result_def no_text_reply_def json_error_def json_recipe_def Let_def
      split: option.splits sum.splits if_splits)

lemma catch_status: "status (catch_reply thrown) = 500"
  by (simp add: catch_reply_def json_error_def Let_def)

lemma POST_try_array:
  "map_of kvs ''ingredients'' = Some (JArr (x # xs)) \<Longrightarrow>
   POST_try (Inr (JObj kvs)) gen =
     (case ingredientNames (x # xs) of
        Inl e \<Rightarrow> (Inl e, [ReadBody])
      | Inr names \<Rightarrow>
          ((case gen (prompt names) of Inl e \<Rightarrow> Inl e | Inr result \<Rightarrow> interpret_result result),
           [ReadBody, GenerateContent (prompt names)]))"
  by (simp add: POST_try_def destructure_ingredients_def invalid_ingredients_def
      falsy_def isArray_def array_elements_def split: sum.splits)

lemma property_of_element:
  "e \<noteq> JNull \<Longrightarrow> \<exists>v. get_property e ''name'' = Inr v"
  by (cases e) simp_all

lemma element_texts_of_names:
  assumes "\<forall>e \<in> set els. e \<noteq> JNull"
  shows "\<exists>vs. try_map (\<lambda>ing. get_property ing ''name'') els = Inr vs \<and>
           try_map name_text vs = try_map element_name_text els"
  using assms
proof (induction els)
  case Nil
  show ?case by simp
next
  case (Cons e els)
  then obtain vs where vs: "try_map (\<lambda>ing. get_property ing ''name'') els = Inr vs"
    "try_map name_text vs = try_map element_name_text els"
    by auto
  from Cons.prems have "e \<noteq> JNull" by simp
  then obtain v where v: "get_property e ''name'' = Inr v"
    using property_of_element by blast
  then have "element_name_text e = name_text v"
    by (simp add: element_name_text_def)
  with vs v show ?case by (cases "name_text v") simp_all
qed

lemma ingredientNames_elements:
  assumes "\<forall>e \<in> set els. e \<noteq> JNull"
  shows "ingredientNames els =
     (case try_map element_name_text els of
        Inl thrown \<Rightarrow> Inl thrown
      | Inr texts \<Rightarrow> Inr (join '', '' texts))"
proof -
  from element_texts_of_names [OF assms]
  obtain vs where "try_map (\<lambda>ing. get_property ing ''name'') els = Inr vs"
    and "try_map name_text vs = try_map element_name_text els"
    by blast
  then show ?thesis by (simp add: ingredientNames_def)
qed

lemma POST_called:
  "snd (POST env_key request gen) = [ReadBody, GenerateContent p] \<Longrightarrow>
   fst (POST env_key request gen) =
     (case gen p of
        Inl thrown \<Rightarrow> catch_reply thrown
      | Inr result \<Rightarrow>
          (case interpret_result result of Inl thrown \<Rightarrow> catch_reply thrown | Inr reply \<Rightarrow> reply))"
  by (auto simp: POST_def POST_try_def split: sum.splits prod.splits if_splits)

lemma POST_thrown:
  "API_KEY env_key \<noteq> [] \<Longrightarrow> POST_try request gen = (Inl thrown, events) \<Longrightarrow>
   POST env_key request gen = (catch_reply thrown, events)"
  by (simp add: POST_def)

lemma catch_reply_eq:
  "catch_reply thrown =
     json_error (''Failed to generate recipe. '' @
       (case thrown of ErrorObject m \<Rightarrow> m | ThrownString t \<Rightarrow> t | ThrownOther \<Rightarrow> ''Unknown error'')) 500"
  by (simp add: catch_reply_def Let_def)

lemma POST_500_cases:
  assumes "status (fst (POST env_key request gen)) = 500"
  shows "API_KEY env_key = [] \<or>
    (\<exists>thrown events. POST_try request gen = (Inl thrown, events)) \<or>
    (\<exists>p result. snd (POST env_key request gen) = [ReadBody, GenerateContent p] \<and>
       gen p = Inr result \<and>
       (response result = None \<or>
        (\<exists>r. response result = Some r \<and> response_text r = Inr [])))"
proof (cases "API_KEY env_key = []")
  case True
  then show ?thesis by simp
next
  case key: False
  obtain outcome events where t: "POST_try request gen = (outcome, events)"
    by (cases "POST_try request gen")
  show ?thesis
  proof (cases outcome)
    case (Inl thrown)
    with t show ?thesis by blast
  next
    case (Inr reply)
    with t key assms have s: "status reply = 500"
      by (simp add: POST_def)
    from t Inr s obtain p result where
      "events = [ReadBody, GenerateContent p]" "gen p = Inr result" "interpret_result result = Inr reply"
      by (auto simp: POST_try_def json_error_def split: sum.splits if_splits)
    moreover from this s have "response result = None \<or>
        (\<exists>r. response result = Some r \<and> response_text r = Inr [])"
      by (auto simp: interpret_result_def json_recipe_def split: option.splits sum.splits if_splits)
    moreover from t key have "snd (POST env_key request gen) = events"
      by (simp add: POST_def split: sum.splits)
    ultimately show ?thesis by blast
  qed
qed

text \<open>
  Claim C10, as amended. The validation of the route looks only at whether the posted
  \<open>ingredients\<close> is a non-empty array: whatever its elements are, the reply is never the
  400 one. With the credential configured: a \<open>null\<close> element makes reading its name
  throw, so that no prompt is built and the reply is the 500 one of the
  \<^verbatim>\<open>catch\<close> clause. Without a \<open>null\<close> element, each element contributes
  the text that \<^verbatim>\<open>join\<close> gives its name: the empty text when the name is
  missing or \<open>null\<close>, the string when it is one, its conversion to a string otherwise
  (a number by its digits, an object as \<^verbatim>\<open>[object Object]\<close>). When every
  conversion succeeds the provider is called with the prompt made from these texts joined
  by \<open>, \<close>; a conversion throws for an object with a property \<open>toString\<close> of its
  own, and then again no prompt is built and the reply is the 500 one of the
  \<^verbatim>\<open>catch\<close> clause.
\<close>

theorem lenient_validation:
  assumes "map_of kvs ''ingredients'' = Some (JArr (x # xs))"
  shows "status (fst (POST env_key (Inr (JObj kvs)) gen)) \<noteq> 400 \<and>
    (API_KEY env_key \<noteq> [] \<longrightarrow>
      (\<forall>names. ingredientNames (x # xs) = Inr names \<longrightarrow>
         snd (POST env_key (Inr (JObj kvs)) gen) = [ReadBody, GenerateContent (prompt names)]) \<and>
      ((\<forall>e \<in> set (x # xs). e \<noteq> JNull \<and>
           (get_property e ''name'' = Inr None \<or>
            (\<exists>s. get_property e ''name'' = Inr (Some (JStr s))))) \<longrightarrow>
         ingredientNames (x # xs) = Inr (join '', '' (map posted_name (x # xs)))) \<and>
      (JNull \<in> set (x # xs) \<longrightarrow>
         POST env_key (Inr (JObj kvs)) gen =
           (json_error (''Failed to generate recipe. Cannot read properties of null (reading '' @
              quote ''name'' @ '')'') 500, [ReadBody])) \<and>
      (JNull \<notin> set (x # xs) \<longrightarrow>
         (\<forall>texts. try_map element_name_text (x # xs) = Inr texts \<longrightarrow>
            snd (POST env_key (Inr (JObj kvs)) gen) =
              [ReadBody, GenerateContent (prompt (join '', '' texts))]) \<and>
         (\<forall>thrown. try_map element_name_text (x # xs) = Inl thrown \<longrightarrow>
            POST env_key (Inr (JObj kvs)) gen =
              (json_error (''Failed to generate recipe. '' @
                 (case thrown of ErrorObject m \<Rightarrow> m | ThrownString t \<Rightarrow> t
                  | ThrownOther \<Rightarrow> ''Unknown error'')) 500, [ReadBody])))) \<and>
    (get_property e ''name'' = Inr None \<longrightarrow> element_name_text e = Inr []) \<and>
    (get_property e ''name'' = Inr (Some JNull) \<longrightarrow> element_name_text e = Inr []) \<and>
    (get_property e ''name'' = Inr (Some (JStr t)) \<longrightarrow> element_name_text e = Inr t) \<and>
    (get_property e ''name'' = Inr (Some v) \<and> v \<noteq> JNull \<longrightarrow>
       element_name_text e = ToString v) \<and>
    ToString (JNum t) = Inr t \<and>
    (map_of props ''toString'' = None \<longrightarrow> ToString (JObj props) = Inr ''[object Object]'') \<and>
    (map_of props ''toString'' \<noteq> None \<longrightarrow>
       ToString (JObj props) = Inl (ErrorObject ''Cannot convert object to primitive value''))"
proof (intro conjI impI allI)
  show "status (fst (POST env_key (Inr (JObj kvs)) gen)) \<noteq> 400"
    by (auto simp: POST_def POST_try_array [OF assms] catch_status json_error_def
        split: sum.splits prod.splits dest!: interpret_status)
  show "ToString (JNum t) = Inr t"
    by simp
next
  fix names
  assume "API_KEY env_key \<noteq> []" "ingredientNames (x # xs) = Inr names"
  then show "snd (POST env_key (Inr (JObj kvs)) gen) = [ReadBody, GenerateContent (prompt names)]"
    by (simp add: POST_def POST_try_array [OF assms] split: sum.splits prod.splits)
next
  assume "\<forall>e \<in> set (x # xs). e \<noteq> JNull \<and>
           (get_property e ''name'' = Inr None \<or>
            (\<exists>s. get_property e ''name'' = Inr (Some (JStr s))))"
  then show "ingredientNames (x # xs) = Inr (join '', '' (map posted_name (x # xs)))"
    by (rule blank_names)
next
  assume key: "API_KEY env_key \<noteq> []" and "JNull \<in> set (x # xs)"
  then have "ingredientNames (x # xs) =
     Inl (ErrorObject (''Cannot read properties of null (reading '' @ quote ''name'' @ '')''))"
    using null_element_throws [of "x # xs"] by (simp add: ingredientNames_def)
  with key show "POST env_key (Inr (JObj kvs)) gen =
           (json_error (''Failed to generate recipe. Cannot read properties of null (reading '' @
              quote ''name'' @ '')'') 500, [ReadBody])"
    by (simp add: POST_def POST_try_array [OF assms] catch_reply_def)
next
  fix texts
  assume key: "API_KEY env_key \<noteq> []" and "JNull \<notin> set (x # xs)"
    and texts: "try_map element_name_text (x # xs) = Inr texts"
  then have "\<forall>e \<in> set (x # xs). e \<noteq> JNull"
    by blast
  then have "ingredientNames (x # xs) = Inr (join '', '' texts)"
    using texts by (simp add: ingredientNames_elements)
  with key show "snd (POST env_key (Inr (JObj kvs)) gen) =
              [ReadBody, GenerateContent (prompt (join '', '' texts))]"
    by (simp add: POST_def POST_try_array [OF assms] split: sum.splits prod.splits)
next
  fix thrown
  assume key: "API_KEY env_key \<noteq> []" and "JNull \<notin> set (x # xs)"
    and thrown: "try_map element_name_text (x # xs) = Inl thrown"
  then have "\<forall>e \<in> set (x # xs). e \<noteq> JNull"
    by blast
  then have "ingredientNames (x # xs) = Inl thrown"
    using thrown by (simp add: ingredientNames_elements)
  with key show "POST env_key (Inr (JObj kvs)) gen =
              (json_error (''Failed to generate recipe. '' @
                 (case thrown of ErrorObject m \<Rightarrow> m | ThrownString t \<Rightarrow> t
                  | ThrownOther \<Rightarrow> ''Unknown error'')) 500, [ReadBody])"
    by (simp add: POST_def POST_try_array [OF assms] catch_reply_eq)
next
  assume "get_property e ''name'' = Inr None"
  then show "element_name_text e = Inr []"
    by (simp add: element_name_text_def name_text_def)
next
  assume "get_property e ''name'' = Inr (Some JNull)"
  then show "element_name_text e = Inr []"
    by (simp add: element_name_text_def name_text_def)
next
  assume "get_property e ''name'' = Inr (Some (JStr t))"
  then show "element_name_text e = Inr t"
    by (simp add: element_name_text_def name_text_def)
next
  assume "get_property e ''name'' = Inr (Some v) \<and> v \<noteq> JNull"
  then show "element_name_text e = ToString v"
    by (simp add: element_name_text_def name_text_def)
next
  assume "map_of props ''toString'' = None"
  then show "ToString (JObj props) = Inr ''[object Object]''"
    by simp
next
  assume "map_of props ''toString'' \<noteq> None"
  then show "ToString (JObj props) = Inl (ErrorObject ''Cannot convert object to primitive value'')"
    by simp
qed

text \<open>
  An array of an object without a name and of a string: both names are empty, the prompt
  is built from \<open>, \<close>. An array holding \<open>null\<close>. An array whose second element has
  the number 5 for a name: the prompt is built from \<open>, 5\<close>. An array whose second
  element has for a name an object with a property \<open>toString\<close>: no prompt is built.
\<close>

theorem lenient_validation_witness:
  "map_of [(''ingredients'', JArr [JObj [(''id'', JStr ''1'')], JStr ''Rice''])] ''ingredients'' =
     Some (JArr [JObj [(''id'', JStr ''1'')], JStr ''Rice'']) \<and>
   status (fst (POST (Some ''key'')
      (Inr (JObj [(''ingredients'', JArr [JObj [(''id'', JStr ''1'')], JStr ''Rice''])]))
      (provider_returning \<lparr>response = None\<rparr>))) \<noteq> 400 \<and>
   ingredientNames [JObj [(''id'', JStr ''1'')], JStr ''Rice''] = Inr '', '' \<and>
   snd (POST (Some ''key'')
      (Inr (JObj [(''ingredients'', JArr [JObj [(''id'', JStr ''1'')], JStr ''Rice''])]))
      (provider_returning \<lparr>response = None\<rparr>)) = [ReadBody, GenerateContent (prompt '', '')] \<and>
   POST (Some ''key'') (Inr (JObj [(''ingredients'', JArr [JStr ''Rice'', JNull])]))
      (provider_returning \<lparr>response = None\<rparr>) =
     (json_error (''Failed to generate recipe. Cannot read properties of null (reading '' @
        quote ''name'' @ '')'') 500, [ReadBody]) \<and>
   JNull \<notin> set [JObj [(''id'', JStr ''1'')], JObj [(''name'', JNum ''5'')]] \<and>
   try_map element_name_text [JObj [(''id'', JStr ''1'')], JObj [(''name'', JNum ''5'')]] =
     Inr [[], ''5''] \<and>
   snd (POST (Some ''key'')
      (Inr (JObj [(''ingredients'', JArr [JObj [(''id'', JStr ''1'')], JObj [(''name'', JNum ''5'')]])]))
      (provider_returning \<lparr>response = None\<rparr>)) = [ReadBody, GenerateContent (prompt '', 5'')] \<and>
   try_map element_name_text
      [JObj [(''id'', JStr ''1'')], JObj [(''name'', JObj [(''toString'', JNum ''1'')])]] =
     Inl (ErrorObject ''Cannot convert object to primitive value'') \<and>
   POST (Some ''key'')
      (Inr (JObj [(''ingredients'',
         JArr [JObj [(''id'', JStr ''1'')], JObj [(''name'', JObj [(''toString'', JNum ''1'')])]])]))
      (provider_returning \<lparr>response = None\<rparr>) =
     (json_error ''Failed to generate recipe. Cannot convert object to primitive value'' 500,
      [ReadBody])"
proof -
  let ?gen = "provider_returning \<lparr>response = None\<rparr>"
  let ?kvs = "[(''ingredients'', JArr [JObj [(''id'', JStr ''1'')], JStr ''Rice''])]"
  let ?five = "[(''ingredients'', JArr [JObj [(''id'', JStr ''1'')], JObj [(''name'', JNum ''5'')]])]"
  let ?odd = "[(''ingredients'',
         JArr [JObj [(''id'', JStr ''1'')], JObj [(''name'', JObj [(''toString'', JNum ''1'')])]])]"
  have key: "API_KEY (Some ''key'') \<noteq> []"
    by (simp add: API_KEY_def)
  have m: "map_of ?kvs ''ingredients'' = Some (JArr [JObj [(''id'', JStr ''1'')], JStr ''Rice''])"
    by simp
  note L = lenient_validation [OF m, where env_key = "Some ''key''" and gen = ?gen
      and e = JNull and t = "[]" and v = JNull and props = "[]"]
  from L have a: "status (fst (POST (Some ''key'') (Inr (JObj ?kvs)) ?gen)) \<noteq> 400"
    by (rule conjunct1)
  note K = L [THEN conjunct2, THEN conjunct1, THEN mp, OF key]
  have blank: "\<forall>e \<in> set [JObj [(''id'', JStr ''1'')], JStr ''Rice'']. e \<noteq> JNull \<and>
           (get_property e ''name'' = Inr None \<or>
            (\<exists>s. get_property e ''name'' = Inr (Some (JStr s))))"
    by simp
  from K [THEN conjunct2, THEN conjunct1, THEN mp, OF blank]
  have c: "ingredientNames [JObj [(''id'', JStr ''1'')], JStr ''Rice''] = Inr '', ''"
    by (simp add: posted_name_def)
  from K [THEN conjunct1, THEN spec, THEN mp, OF c]
  have b: "snd (POST (Some ''key'') (Inr (JObj ?kvs)) ?gen) = [ReadBody, GenerateContent (prompt '', '')]" .
  have m': "map_of [(''ingredients'', JArr [JStr ''Rice'', JNull])] ''ingredients'' =
      Some (JArr [JStr ''Rice'', JNull])"
    by simp
  note N = lenient_validation [OF m', where env_key = "Some ''key''" and gen = ?gen
      and e = JNull and t = "[]" and v = JNull and props = "[]",
      THEN conjunct2, THEN conjunct1, THEN mp, OF key]
  have holds: "JNull \<in> set [JStr ''Rice'', JNull]"
    by simp
  from N [THEN conjunct2, THEN conjunct2, THEN conjunct1, THEN mp, OF holds]
  have d: "POST (Some ''key'') (Inr (JObj [(''ingredients'', JArr [JStr ''Rice'', JNull])])) ?gen =
     (json_error (''Failed to generate recipe. Cannot read properties of null (reading '' @
        quote ''name'' @ '')'') 500, [ReadBody])" .
  have m5: "map_of ?five ''ingredients'' =
      Some (JArr [JObj [(''id'', JStr ''1'')], JObj [(''name'', JNum ''5'')]])"
    by simp
  have n5: "JNull \<notin> set [JObj [(''id'', JStr ''1'')], JObj [(''name'', JNum ''5'')]]"
    by simp
  have t5: "try_map element_name_text [JObj [(''id'', JStr ''1'')], JObj [(''name'', JNum ''5'')]] =
      Inr [[], ''5'']"
    by (simp add: element_name_text_def name_text_def)
  note F = lenient_validation [OF m5, where env_key = "Some ''key''" and gen = ?gen
      and e = JNull and t = "[]" and v = JNull and props = "[]",
      THEN conjunct2, THEN conjunct1, THEN mp, OF key,
      THEN conjunct2, THEN conjunct2, THEN conjunct2, THEN mp, OF n5]
  from F [THEN conjunct1, THEN spec, THEN mp, OF t5]
  have f: "snd (POST (Some ''key'') (Inr (JObj ?five)) ?gen) = [ReadBody, GenerateContent (prompt '', 5'')]"
    by simp
  have mo: "map_of ?odd ''ingredients'' =
      Some (JArr [JObj [(''id'', JStr ''1'')], JObj [(''name'', JObj [(''toString'', JNum ''1'')])]])"
    by simp
  have no: "JNull \<notin> set [JObj [(''id'', JStr ''1'')], JObj [(''name'', JObj [(''toString'', JNum ''1'')])]]"
    by simp
  have to: "try_map element_name_text
      [JObj [(''id'', JStr ''1'')], JObj [(''name'', JObj [(''toString'', JNum ''1'')])]] =
     Inl (ErrorObject ''Cannot convert object to primitive value'')"
    by (simp add: element_name_text_def name_text_def)
  note O = lenient_validation [OF mo, where env_key = "Some ''key''" and gen = ?gen
      and e = JNull and t = "[]" and v = JNull and props = "[]",
      THEN conjunct2, THEN conjunct1, THEN mp, OF key,
      THEN conjunct2, THEN conjunct2, THEN conjunct2, THEN mp, OF no]
  from O [THEN conjunct2, THEN spec, THEN mp, OF to]
  have g: "POST (Some ''key'') (Inr (JObj ?odd)) ?gen =
     (json_error ''Failed to generate recipe. Cannot convert object to primitive value'' 500,
      [ReadBody])"
    by simp
  from m a c b d n5 t5 f to g show ?thesis
    by (intro conjI)
qed

text \<open>
  The array \<open>[null]\<close> passes the validation, and yet nothing is interpolated into a
  prompt: the provider is not called, the reply is a 500.
\<close>

theorem null_element_counterexample:
  "POST (Some ''key'') (Inr (JObj [(''ingredients'', JArr [JNull])]))
      (provider_returning \<lparr>response = None\<rparr>) =
     (json_error (''Failed to generate recipe. Cannot read properties of null (reading '' @
        quote ''name'' @ '')'') 500, [ReadBody])"
  by (simp add: POST_def POST_try_def API_KEY_def destructure_ingredients_def
      invalid_ingredients_def falsy_def isArray_def array_elements_def ingredientNames_def
      catch_reply_def)

subsection \<open>The credential\<close>

lemma POST_no_key:
  "API_KEY env_key = [] \<Longrightarrow>
   POST env_key request gen = (json_error ''API key not configured'' 500, [])"
  by (simp add: POST_def)

text \<open>
  Claim C5. When the credential is not configured (the variable is unset or empty), every
  request is answered with status 500 and the error \<open>API key not configured\<close>,
  whatever the body and the provider are, and nothing is done before: the body is not
  read and the provider is not called with any prompt.
\<close>

theorem missing_key_reply:
  "env_key = None \<or> env_key = Some [] \<Longrightarrow>
   POST env_key request generateContent =
     (\<lparr>status = 500,
       body = \<lparr>body_error = Some ''API key not configured'', body_recipeText = None\<rparr>\<rparr>, [])"
  using POST_no_key [of env_key request generateContent]
  by (simp add: API_KEY_empty json_error_def)

theorem missing_key_reply_witness:
  "POST None (Inr (request_body [INITIAL_INGREDIENTS ! 0]))
     (provider_returning \<lparr>response = None\<rparr>) =
     (\<lparr>status = 500,
       body = \<lparr>body_error = Some ''API key not configured'', body_recipeText = None\<rparr>\<rparr>, []) \<and>
   POST (Some []) (Inl ThrownOther) (provider_throwing ThrownOther) =
     (\<lparr>status = 500,
       body = \<lparr>body_error = Some ''API key not configured'', body_recipeText = None\<rparr>\<rparr>, [])"
  using missing_key_reply [of None] missing_key_reply [of "Some []"]
  by simp

subsection \<open>The text of the failure replies\<close>

lemma errorMessage_prefix:
  "errorMessage reason = ''Failed to generate recipe due to safety settings.'' \<or>
   prefix ''Failed to generate recipe. '' (errorMessage reason)"
  unfolding errorMessage_def prefix_def by auto

lemma no_text_reply_eq:
  "no_text_reply r =
     json_error
       (errorMessage (case first_candidate r of None \<Rightarrow> None | Some c \<Rightarrow> finishReason c) @
        safetyInfo (case first_candidate r of None \<Rightarrow> None | Some c \<Rightarrow> safetyRatings c)) 500"
  by (simp add: no_text_reply_def Let_def)

lemma no_text_reply_text:
  "\<exists>e. body_error (body (no_text_reply r)) = Some e \<and>
     (prefix ''Failed to generate recipe due to safety settings.'' e \<or>
      prefix ''Failed to generate recipe. '' e)"
proof -
  let ?reason = "case first_candidate r of None \<Rightarrow> None | Some c \<Rightarrow> finishReason c"
  let ?info = "safetyInfo (case first_candidate r of None \<Rightarrow> None | Some c \<Rightarrow> safetyRatings c)"
  have e: "body_error (body (no_text_reply r)) = Some (errorMessage ?reason @ ?info)"
    by (simp add: no_text_reply_eq json_error_def)
  from errorMessage_prefix [of ?reason]
  have "prefix ''Failed to generate recipe due to safety settings.'' (errorMessage ?reason @ ?info) \<or>
      prefix ''Failed to generate recipe. '' (errorMessage ?reason @ ?info)"
  proof
    assume "errorMessage ?reason = ''Failed to generate recipe due to safety settings.''"
    then show ?thesis by (simp add: prefix_def)
  next
    assume "prefix ''Failed to generate recipe. '' (errorMessage ?reason)"
    then show ?thesis by (metis prefix_prefix)
  qed
  with e show ?thesis by blast
qed

lemma interpret_text:
  assumes "interpret_result result = Inr reply" and "status reply = 500"
  shows "\<exists>e. body_error (body reply) = Some e \<and>
     (prefix ''Failed to generate recipe due to safety settings.'' e \<or>
      prefix ''Failed to generate recipe. '' e)"
proof (cases "response result")
  case None
  with assms(1) have "reply = json_error ''Failed to generate recipe. No response object from AI.'' 500"
    by (simp add: interpret_result_def)
  then show ?thesis by (simp add: json_error_def prefix_def)
next
  case (Some r)
  with assms have "reply = no_text_reply r"
    by (auto simp: interpret_result_def json_recipe_def split: sum.splits if_splits)
  then show ?thesis using no_text_reply_text [of r] by simp
qed

lemma catch_text:
  "body_error (body (catch_reply thrown)) =
     Some (''Failed to generate recipe. '' @
       (case thrown of ErrorObject m \<Rightarrow> m | ThrownString t \<Rightarrow> t | ThrownOther \<Rightarrow> ''Unknown error''))"
  by (simp add: catch_reply_def json_error_def Let_def)

lemma POST_reply_cases:
  "fst (POST env_key request gen) = json_error ''API key not configured'' 500 \<or>
   fst (POST env_key request gen) = json_error ''Missing or invalid ingredients list'' 400 \<or>
   (\<exists>thrown. fst (POST env_key request gen) = catch_reply thrown) \<or>
   (\<exists>result. interpret_result result = Inr (fst (POST env_key request gen)))"
  by (auto simp: POST_def POST_try_def split: sum.splits prod.splits if_splits)

text \<open>
  A 500 reply whose error does not begin with \<open>Failed to generate recipe. \<close>: the one
  for a missing credential.
\<close>

theorem failure_text_counterexample:
  "status (fst (POST None (Inr (request_body [INITIAL_INGREDIENTS ! 0]))
      (provider_returning \<lparr>response = None\<rparr>))) = 500 \<and>
   body_error (body (fst (POST None (Inr (request_body [INITIAL_INGREDIENTS ! 0]))
      (provider_returning \<lparr>response = None\<rparr>)))) = Some ''API key not configured'' \<and>
   \<not> prefix ''Failed to generate recipe. '' ''API key not configured''"
  by (simp add: POST_def API_KEY_def json_error_def)

text \<open>
  Claim C7, as amended. The error of a 500 reply is fixed by the failure. A missing
  credential gives \<open>API key not configured\<close>. Any value thrown in the
  \<^verbatim>\<open>try\<close> block (by reading the body, by reading the names, by the provider
  call, by reading the text of the response) gives \<open>Failed to generate recipe. \<close>
  followed by the message of the error, by the thrown string, or by \<open>Unknown error\<close>
  for any other value. When the provider was called and answered: a missing response
  object gives \<open>Failed to generate recipe. No response object from AI.\<close>; a response
  without text gives \<open>Failed to generate recipe due to safety settings.\<close> for the
  finish reason \<open>SAFETY\<close>, \<open>Failed to generate recipe. \<close> followed by the finish
  reason in brackets for another finish reason, and
  \<open>Failed to generate recipe. The AI response was empty or blocked.\<close> without one,
  each followed by the safety ratings when the first candidate has them. There is no
  other 500 reply, so each error is \<open>API key not configured\<close>, or begins with the
  safety sentence, or begins with \<open>Failed to generate recipe. \<close>.
\<close>

theorem failure_reply_text:
  "(status (fst (POST env_key request generateContent)) = 500 \<longrightarrow>
      (\<exists>e. body_error (body (fst (POST env_key request generateContent))) = Some e \<and>
         (e = ''API key not configured'' \<or>
          prefix ''Failed to generate recipe due to safety settings.'' e \<or>
          prefix ''Failed to generate recipe. '' e))) \<and>
   (API_KEY env_key \<noteq> [] \<and> b \<noteq> [] \<and>
    generateContent (prompt (join '', '' (map ingredient_name b))) = Inl thrown \<longrightarrow>
      fst (POST env_key (Inr (request_body b)) generateContent) =
        json_error (''Failed to generate recipe. '' @
          (case thrown of ErrorObject m \<Rightarrow> m | ThrownString t \<Rightarrow> t
           | ThrownOther \<Rightarrow> ''Unknown error'')) 500) \<and>
   (API_KEY env_key \<noteq> [] \<longrightarrow>
      fst (POST env_key (Inl thrown) generateContent) =
        json_error (''Failed to generate recipe. '' @
          (case thrown of ErrorObject m \<Rightarrow> m | ThrownString t \<Rightarrow> t
           | ThrownOther \<Rightarrow> ''Unknown error'')) 500) \<and>
   (API_KEY env_key = [] \<longrightarrow>
      fst (POST env_key request generateContent) = json_error ''API key not configured'' 500) \<and>
   (API_KEY env_key \<noteq> [] \<and> POST_try request generateContent = (Inl thrown, events) \<longrightarrow>
      POST env_key request generateContent =
        (json_error (''Failed to generate recipe. '' @
           (case thrown of ErrorObject m \<Rightarrow> m | ThrownString t \<Rightarrow> t
            | ThrownOther \<Rightarrow> ''Unknown error'')) 500, events)) \<and>
   (snd (POST env_key request generateContent) = [ReadBody, GenerateContent p] \<longrightarrow>
      (generateContent p = Inl thrown \<longrightarrow>
         fst (POST env_key request generateContent) =
           json_error (''Failed to generate recipe. '' @
             (case thrown of ErrorObject m \<Rightarrow> m | ThrownString t \<Rightarrow> t
              | ThrownOther \<Rightarrow> ''Unknown error'')) 500) \<and>
      (generateContent p = Inr \<lparr>response = None\<rparr> \<longrightarrow>
         fst (POST env_key request generateContent) =
           json_error ''Failed to generate recipe. No response object from AI.'' 500) \<and>
      (generateContent p = Inr \<lparr>response = Some \<lparr>response_text = Inl thrown,
           candidates = any\<rparr>\<rparr> \<longrightarrow>
         fst (POST env_key request generateContent) =
           json_error (''Failed to generate recipe. '' @
             (case thrown of ErrorObject m \<Rightarrow> m | ThrownString t \<Rightarrow> t
              | ThrownOther \<Rightarrow> ''Unknown error'')) 500) \<and>
      (generateContent p = Inr \<lparr>response = Some \<lparr>response_text = Inr [],
           candidates = Some (\<lparr>finishReason = Some ''SAFETY'', safetyRatings = ratings\<rparr> # cs)\<rparr>\<rparr> \<longrightarrow>
         fst (POST env_key request generateContent) =
           json_error (''Failed to generate recipe due to safety settings.'' @
             safetyInfo ratings) 500) \<and>
      (reason \<noteq> [] \<and> reason \<noteq> ''SAFETY'' \<and>
       generateContent p = Inr \<lparr>response = Some \<lparr>response_text = Inr [],
           candidates = Some (\<lparr>finishReason = Some reason, safetyRatings = ratings\<rparr> # cs)\<rparr>\<rparr> \<longrightarrow>
         fst (POST env_key request generateContent) =
           json_error (''Failed to generate recipe. '' @ '' (Finish Reason: '' @ reason @ '')'' @
             safetyInfo ratings) 500) \<and>
      ((absent = None \<or> absent = Some []) \<and>
       generateContent p = Inr \<lparr>response = Some \<lparr>response_text = Inr [],
           candidates = Some (\<lparr>finishReason = absent, safetyRatings = ratings\<rparr> # cs)\<rparr>\<rparr> \<longrightarrow>
         fst (POST env_key request generateContent) =
           json_error (''Failed to generate recipe. The AI response was empty or blocked.'' @
             safetyInfo ratings) 500) \<and>
      ((none = None \<or> none = Some []) \<and>
       generateContent p = Inr \<lparr>response = Some \<lparr>response_text = Inr [],
           candidates = none\<rparr>\<rparr> \<longrightarrow>
         fst (POST env_key request generateContent) =
           json_error ''Failed to generate recipe. The AI response was empty or blocked.'' 500)) \<and>
   safetyInfo None = [] \<and>
   safetyInfo (Some rendered) = '' (Safety Ratings: '' @ rendered @ '')'' \<and>
   (status (fst (POST env_key request generateContent)) = 500 \<longrightarrow>
      API_KEY env_key = [] \<or>
      (\<exists>thrown events. POST_try request generateContent = (Inl thrown, events)) \<or>
      (\<exists>p result. snd (POST env_key request generateContent) = [ReadBody, GenerateContent p] \<and>
         generateContent p = Inr result \<and>
         (response result = None \<or>
          (\<exists>r. response result = Some r \<and> response_text r = Inr []))))"
proof (intro conjI impI)
  let ?reply = "fst (POST env_key request generateContent)"
  assume s: "status ?reply = 500"
  from POST_reply_cases [of env_key request generateContent]
  consider "?reply = json_error ''API key not configured'' 500"
    | "?reply = json_error ''Missing or invalid ingredients list'' 400"
    | thrown where "?reply = catch_reply thrown"
    | result where "interpret_result result = Inr ?reply"
    by blast
  then show "\<exists>e. body_error (body ?reply) = Some e \<and>
         (e = ''API key not configured'' \<or>
          prefix ''Failed to generate recipe due to safety settings.'' e \<or>
          prefix ''Failed to generate recipe. '' e)"
  proof cases
    case 1
    then show ?thesis by (simp add: json_error_def)
  next
    case 2
    with s show ?thesis by (simp add: json_error_def)
  next
    case 3
    then show ?thesis by (simp add: catch_text prefix_def)
  next
    case 4
    from interpret_text [OF 4 s] show ?thesis by blast
  qed
  from s show "API_KEY env_key = [] \<or>
      (\<exists>thrown events. POST_try request generateContent = (Inl thrown, events)) \<or>
      (\<exists>p result. snd (POST env_key request generateContent) = [ReadBody, GenerateContent p] \<and>
         generateContent p = Inr result \<and>
         (response result = None \<or>
          (\<exists>r. response result = Some r \<and> response_text r = Inr [])))"
    by (rule POST_500_cases)
next
  assume "API_KEY env_key \<noteq> [] \<and> b \<noteq> [] \<and>
    generateContent (prompt (join '', '' (map ingredient_name b))) = Inl thrown"
  then show "fst (POST env_key (Inr (request_body b)) generateContent) =
        json_error (''Failed to generate recipe. '' @
          (case thrown of ErrorObject m \<Rightarrow> m | ThrownString t \<Rightarrow> t
           | ThrownOther \<Rightarrow> ''Unknown error'')) 500"
    by (simp add: POST_page catch_reply_def)
next
  assume "API_KEY env_key \<noteq> []"
  then show "fst (POST env_key (Inl thrown) generateContent) =
        json_error (''Failed to generate recipe. '' @
          (case thrown of ErrorObject m \<Rightarrow> m | ThrownString t \<Rightarrow> t
           | ThrownOther \<Rightarrow> ''Unknown error'')) 500"
    by (simp add: POST_def POST_try_def catch_reply_def)
next
  assume "API_KEY env_key = []"
  then show "fst (POST env_key request generateContent) = json_error ''API key not configured'' 500"
    by (simp add: POST_no_key)
next
  assume "API_KEY env_key \<noteq> [] \<and> POST_try request generateContent = (Inl thrown, events)"
  then show "POST env_key request generateContent =
        (json_error (''Failed to generate recipe. '' @
           (case thrown of ErrorObject m \<Rightarrow> m | ThrownString t \<Rightarrow> t
            | ThrownOther \<Rightarrow> ''Unknown error'')) 500, events)"
    by (simp add: POST_thrown catch_reply_eq)
next
  assume "snd (POST env_key request generateContent) = [ReadBody, GenerateContent p]"
    and "generateContent p = Inl thrown"
  then show "fst (POST env_key request generateContent) =
           json_error (''Failed to generate recipe. '' @
             (case thrown of ErrorObject m \<Rightarrow> m | ThrownString t \<Rightarrow> t
              | ThrownOther \<Rightarrow> ''Unknown error'')) 500"
    by (simp add: POST_called catch_reply_eq)
next
  assume "snd (POST env_key request generateContent) = [ReadBody, GenerateContent p]"
    and "generateContent p = Inr \<lparr>response = None\<rparr>"
  then show "fst (POST env_key request generateContent) =
           json_error ''Failed to generate recipe. No response object from AI.'' 500"
    by (simp add: POST_called interpret_result_def)
next
  assume "snd (POST env_key request generateContent) = [ReadBody, GenerateContent p]"
    and "generateContent p = Inr \<lparr>response = Some \<lparr>response_text = Inl thrown,
           candidates = any\<rparr>\<rparr>"
  then show "fst (POST env_key request generateContent) =
           json_error (''Failed to generate recipe. '' @
             (case thrown of ErrorObject m \<Rightarrow> m | ThrownString t \<Rightarrow> t
              | ThrownOther \<Rightarrow> ''Unknown error'')) 500"
    by (simp add: POST_called interpret_result_def catch_reply_eq)
next
  assume "snd (POST env_key request generateContent) = [ReadBody, GenerateContent p]"
    and "generateContent p = Inr \<lparr>response = Some \<lparr>response_text = Inr [],
           candidates = Some (\<lparr>finishReason = Some ''SAFETY'', safetyRatings = ratings\<rparr> # cs)\<rparr>\<rparr>"
  then show "fst (POST env_key request generateContent) =
           json_error (''Failed to generate recipe due to safety settings.'' @
             safetyInfo ratings) 500"
    by (simp add: POST_called interpret_result_def no_text_reply_eq first_candidate_def
        errorMessage_def)
next
  assume "snd (POST env_key request generateContent) = [ReadBody, GenerateContent p]"
    and "reason \<noteq> [] \<and> reason \<noteq> ''SAFETY'' \<and>
       generateContent p = Inr \<lparr>response = Some \<lparr>response_text = Inr [],
           candidates = Some (\<lparr>finishReason = Some reason, safetyRatings = ratings\<rparr> # cs)\<rparr>\<rparr>"
  then show "fst (POST env_key request generateContent) =
           json_error (''Failed to generate recipe. '' @ '' (Finish Reason: '' @ reason @ '')'' @
             safetyInfo ratings) 500"
    by (simp add: POST_called interpret_result_def no_text_reply_eq first_candidate_def
        errorMessage_def truthy_def reasonInfo_def or_empty_def)
next
  assume "snd (POST env_key request generateContent) = [ReadBody, GenerateContent p]"
    and "(absent = None \<or> absent = Some []) \<and>
       generateContent p = Inr \<lparr>response = Some \<lparr>response_text = Inr [],
           candidates = Some (\<lparr>finishReason = absent, safetyRatings = ratings\<rparr> # cs)\<rparr>\<rparr>"
  then show "fst (POST env_key request generateContent) =
           json_error (''Failed to generate recipe. The AI response was empty or blocked.'' @
             safetyInfo ratings) 500"
    by (auto simp add: POST_called interpret_result_def no_text_reply_eq first_candidate_def
        errorMessage_def truthy_def)
next
  assume "snd (POST env_key request generateContent) = [ReadBody, GenerateContent p]"
    and "(none = None \<or> none = Some []) \<and>
       generateContent p = Inr \<lparr>response = Some \<lparr>response_text = Inr [],
           candidates = none\<rparr>\<rparr>"
  then show "fst (POST env_key request generateContent) =
           json_error ''Failed to generate recipe. The AI response was empty or blocked.'' 500"
    by (auto simp add: POST_called interpret_result_def no_text_reply_eq first_candidate_def
        errorMessage_def truthy_def safetyInfo_def)
next
  show "safetyInfo None = []"
    by (simp add: safetyInfo_def)
  show "safetyInfo (Some rendered) = '' (Safety Ratings: '' @ rendered @ '')''"
    by (simp add: safetyInfo_def)
qed

text \<open>
  The provider throwing an error with message \<open>fetch failed\<close>, other throws, a
  provider that answers without a response object, and a missing credential.
\<close>

theorem failure_reply_text_witness:
  "status (fst (POST (Some ''key'') (Inr (request_body [INITIAL_INGREDIENTS ! 0]))
      (provider_throwing (ErrorObject ''fetch failed'')))) = 500 \<and>
   fst (POST (Some ''key'') (Inr (request_body [INITIAL_INGREDIENTS ! 0]))
      (provider_throwing (ErrorObject ''fetch failed''))) =
     json_error ''Failed to generate recipe. fetch failed'' 500 \<and>
   fst (POST (Some ''key'') (Inr (request_body [INITIAL_INGREDIENTS ! 0]))
      (provider_throwing ThrownOther)) =
     json_error ''Failed to generate recipe. Unknown error'' 500 \<and>
   fst (POST (Some ''key'') (Inl (ThrownString ''bad body'')) (provider_throwing ThrownOther)) =
     json_error ''Failed to generate recipe. bad body'' 500 \<and>
   snd (POST (Some ''key'') (Inr (request_body [INITIAL_INGREDIENTS ! 0]))
      (provider_returning \<lparr>response = None\<rparr>)) =
     [ReadBody, GenerateContent (prompt ''Chicken'')] \<and>
   fst (POST (Some ''key'') (Inr (request_body [INITIAL_INGREDIENTS ! 0]))
      (provider_returning \<lparr>response = None\<rparr>)) =
     json_error ''Failed to generate recipe. No response object from AI.'' 500 \<and>
   fst (POST None (Inr (request_body [INITIAL_INGREDIENTS ! 0]))
      (provider_returning \<lparr>response = None\<rparr>)) =
     json_error ''API key not configured'' 500"
proof -
  let ?body = "Inr (request_body [INITIAL_INGREDIENTS ! 0]) :: js_thrown + json"
  let ?failed = "provider_throwing (ErrorObject ''fetch failed'')"
  let ?odd = "provider_throwing ThrownOther"
  let ?silent = "provider_returning \<lparr>response = None\<rparr>"
  have key: "API_KEY (Some ''key'') \<noteq> []"
    by (simp add: API_KEY_def)
  have nokey: "API_KEY None = []"
    by (simp add: API_KEY_def)
  have name: "join '', '' (map ingredient_name [INITIAL_INGREDIENTS ! 0]) = ''Chicken''"
    by (simp add: INITIAL_INGREDIENTS_def)
  note A = failure_reply_text [where env_key = "Some ''key''" and request = ?body
      and generateContent = ?failed and b = "[INITIAL_INGREDIENTS ! 0]"
      and thrown = "ErrorObject ''fetch failed''" and events = "[]" and p = "[]" and any = None
      and ratings = None and cs = "[]" and reason = "[]" and absent = None and none = None
      and rendered = "[]"]
  have "API_KEY (Some ''key'') \<noteq> [] \<and> [INITIAL_INGREDIENTS ! 0] \<noteq> [] \<and>
      ?failed (prompt (join '', '' (map ingredient_name [INITIAL_INGREDIENTS ! 0]))) =
        Inl (ErrorObject ''fetch failed'')"
    using key by (simp add: provider_throwing_def)
  with A [THEN conjunct2, THEN conjunct1]
  have "fst (POST (Some ''key'') ?body ?failed) =
      json_error (''Failed to generate recipe. '' @
        (case ErrorObject ''fetch failed'' of ErrorObject m \<Rightarrow> m | ThrownString t \<Rightarrow> t
         | ThrownOther \<Rightarrow> ''Unknown error'')) 500"
    by (rule mp)
  then have a: "fst (POST (Some ''key'') ?body ?failed) =
      json_error ''Failed to generate recipe. fetch failed'' 500"
    by simp
  then have s: "status (fst (POST (Some ''key'') ?body ?failed)) = 500"
    by (simp add: json_error_def)
  note B = failure_reply_text [where env_key = "Some ''key''" and request = ?body
      and generateContent = ?odd and b = "[INITIAL_INGREDIENTS ! 0]"
      and thrown = ThrownOther and events = "[]" and p = "[]" and any = None
      and ratings = None and cs = "[]" and reason = "[]" and absent = None and none = None
      and rendered = "[]"]
  have "API_KEY (Some ''key'') \<noteq> [] \<and> [INITIAL_INGREDIENTS ! 0] \<noteq> [] \<and>
      ?odd (prompt (join '', '' (map ingredient_name [INITIAL_INGREDIENTS ! 0]))) = Inl ThrownOther"
    using key by (simp add: provider_throwing_def)
  with B [THEN conjunct2, THEN conjunct1]
  have "fst (POST (Some ''key'') ?body ?odd) =
      json_error (''Failed to generate recipe. '' @
        (case ThrownOther of ErrorObject m \<Rightarrow> m | ThrownString t \<Rightarrow> t
         | ThrownOther \<Rightarrow> ''Unknown error'')) 500"
    by (rule mp)
  then have b: "fst (POST (Some ''key'') ?body ?odd) =
      json_error ''Failed to generate recipe. Unknown error'' 500"
    by simp
  note C = failure_reply_text [where env_key = "Some ''key''" and request = ?body
      and generateContent = ?odd and b = "[]"
      and thrown = "ThrownString ''bad body''" and events = "[]" and p = "[]" and any = None
      and ratings = None and cs = "[]" and reason = "[]" and absent = None and none = None
      and rendered = "[]"]
  from C [THEN conjunct2, THEN conjunct2, THEN conjunct1] key
  have "fst (POST (Some ''key'') (Inl (ThrownString ''bad body'')) ?odd) =
      json_error (''Failed to generate recipe. '' @
        (case ThrownString ''bad body'' of ErrorObject m \<Rightarrow> m | ThrownString t \<Rightarrow> t
         | ThrownOther \<Rightarrow> ''Unknown error'')) 500"
    by (rule mp)
  then have c: "fst (POST (Some ''key'') (Inl (ThrownString ''bad body'')) ?odd) =
      json_error ''Failed to generate recipe. bad body'' 500"
    by simp
  have called: "snd (POST (Some ''key'') ?body ?silent) = [ReadBody, GenerateContent (prompt ''Chicken'')]"
    using POST_page [OF key, of "[INITIAL_INGREDIENTS ! 0]" ?silent] name by simp
  have answer: "?silent (prompt ''Chicken'') = Inr \<lparr>response = None\<rparr>"
    by (simp add: provider_returning_def)
  note D = failure_reply_text [where env_key = "Some ''key''" and request = ?body
      and generateContent = ?silent and b = "[]"
      and thrown = ThrownOther and events = "[]" and p = "prompt ''Chicken''" and any = None
      and ratings = None and cs = "[]" and reason = "[]" and absent = None and none = None
      and rendered = "[]"]
  note G = D [THEN conjunct2, THEN conjunct2, THEN conjunct2, THEN conjunct2, THEN conjunct2,
      THEN conjunct1, THEN mp, OF called]
  from G [THEN conjunct2, THEN conjunct1] answer
  have d: "fst (POST (Some ''key'') ?body ?silent) =
      json_error ''Failed to generate recipe. No response object from AI.'' 500"
    by (rule mp)
  note E = failure_reply_text [where env_key = None and request = ?body
      and generateContent = ?silent and b = "[]"
      and thrown = ThrownOther and events = "[]" and p = "[]" and any = None
      and ratings = None and cs = "[]" and reason = "[]" and absent = None and none = None
      and rendered = "[]"]
  from E [THEN conjunct2, THEN conjunct2, THEN conjunct2, THEN conjunct1] nokey
  have e: "fst (POST None ?body ?silent) = json_error ''API key not configured'' 500"
    by (rule mp)
  from s a b c called d e show ?thesis
    by (intro conjI)
qed

subsection \<open>Reading the provider's result\<close>

text \<open>
  Claim C3. Without a response object the reply is the 500 one saying that no response
  object came. With a response whose text is empty: the finish reason \<open>SAFETY\<close> gives
  the safety message; any other non-empty finish reason gives the message carrying that
  reason; a missing (or empty) finish reason, or no candidate at all, gives the generic
  message. The safety ratings, when present, are appended to the message, which is chosen
  from the finish reason alone. A response with text is answered with that text. The
  route, for a request of the page with the credential configured, answers with the reply
  so obtained.
\<close>

theorem interpreter_decision_order:
  "(API_KEY env_key \<noteq> [] \<and> b \<noteq> [] \<and>
    generateContent (prompt (join '', '' (map ingredient_name b))) = Inr result \<and>
    interpret_result result = Inr reply \<longrightarrow>
      POST env_key (Inr (request_body b)) generateContent =
        (reply, [ReadBody, GenerateContent (prompt (join '', '' (map ingredient_name b)))])) \<and>
   interpret_result \<lparr>response = None\<rparr> =
     Inr (json_error ''Failed to generate recipe. No response object from AI.'' 500) \<and>
   interpret_result \<lparr>response = Some \<lparr>response_text = Inr [],
       candidates = Some (\<lparr>finishReason = Some ''SAFETY'', safetyRatings = ratings\<rparr> # cs)\<rparr>\<rparr> =
     Inr (json_error (''Failed to generate recipe due to safety settings.'' @ safetyInfo ratings) 500) \<and>
   (reason \<noteq> [] \<and> reason \<noteq> ''SAFETY'' \<longrightarrow>
     interpret_result \<lparr>response = Some \<lparr>response_text = Inr [],
         candidates = Some (\<lparr>finishReason = Some reason, safetyRatings = ratings\<rparr> # cs)\<rparr>\<rparr> =
       Inr (json_error (''Failed to generate recipe.  (Finish Reason: '' @ reason @ '')'' @
              safetyInfo ratings) 500)) \<and>
   (absent = None \<or> absent = Some [] \<longrightarrow>
     interpret_result \<lparr>response = Some \<lparr>response_text = Inr [],
         candidates = Some (\<lparr>finishReason = absent, safetyRatings = ratings\<rparr> # cs)\<rparr>\<rparr> =
       Inr (json_error (''Failed to generate recipe. The AI response was empty or blocked.'' @
              safetyInfo ratings) 500)) \<and>
   (none = None \<or> none = Some [] \<longrightarrow>
     interpret_result \<lparr>response = Some \<lparr>response_text = Inr [], candidates = none\<rparr>\<rparr> =
       Inr (json_error ''Failed to generate recipe. The AI response was empty or blocked.'' 500)) \<and>
   safetyInfo None = [] \<and>
   safetyInfo (Some rendered) = '' (Safety Ratings: '' @ rendered @ '')'' \<and>
   (answer \<noteq> [] \<longrightarrow>
     interpret_result \<lparr>response = Some \<lparr>response_text = Inr answer, candidates = any\<rparr>\<rparr> =
       Inr (json_recipe answer))"
proof (intro conjI impI)
  show "interpret_result \<lparr>response = None\<rparr> =
     Inr (json_error ''Failed to generate recipe. No response object from AI.'' 500)"
    by (simp add: interpret_result_def)
  show "interpret_result \<lparr>response = Some \<lparr>response_text = Inr [],
       candidates = Some (\<lparr>finishReason = Some ''SAFETY'', safetyRatings = ratings\<rparr> # cs)\<rparr>\<rparr> =
     Inr (json_error (''Failed to generate recipe due to safety settings.'' @ safetyInfo ratings) 500)"
    by (simp add: interpret_result_def no_text_reply_eq first_candidate_def errorMessage_def)
  show "safetyInfo None = []"
    by (simp add: safetyInfo_def)
  show "safetyInfo (Some rendered) = '' (Safety Ratings: '' @ rendered @ '')''"
    by (simp add: safetyInfo_def)
next
  assume "reason \<noteq> [] \<and> reason \<noteq> ''SAFETY''"
  then show "interpret_result \<lparr>response = Some \<lparr>response_text = Inr [],
         candidates = Some (\<lparr>finishReason = Some reason, safetyRatings = ratings\<rparr> # cs)\<rparr>\<rparr> =
       Inr (json_error (''Failed to generate recipe.  (Finish Reason: '' @ reason @ '')'' @
              safetyInfo ratings) 500)"
    by (simp add: interpret_result_def no_text_reply_eq first_candidate_def errorMessage_def
        truthy_def reasonInfo_def or_empty_def)
next
  assume "absent = None \<or> absent = Some []"
  then show "interpret_result \<lparr>response = Some \<lparr>response_text = Inr [],
         candidates = Some (\<lparr>finishReason = absent, safetyRatings = ratings\<rparr> # cs)\<rparr>\<rparr> =
       Inr (json_error (''Failed to generate recipe. The AI response was empty or blocked.'' @
              safetyInfo ratings) 500)"
    by (auto simp add: interpret_result_def no_text_reply_eq first_candidate_def errorMessage_def
        truthy_def)
next
  assume "none = None \<or> none = Some []"
  then show "interpret_result \<lparr>response = Some \<lparr>response_text = Inr [], candidates = none\<rparr>\<rparr> =
       Inr (json_error ''Failed to generate recipe. The AI response was empty or blocked.'' 500)"
    by (auto simp add: interpret_result_def no_text_reply_eq first_candidate_def errorMessage_def
        truthy_def safetyInfo_def)
next
  assume "answer \<noteq> []"
  then show "interpret_result \<lparr>response = Some \<lparr>response_text = Inr answer, candidates = any\<rparr>\<rparr> =
       Inr (json_recipe answer)"
    by (simp add: interpret_result_def)
next
  assume "API_KEY env_key \<noteq> [] \<and> b \<noteq> [] \<and>
    generateContent (prompt (join '', '' (map ingredient_name b))) = Inr result \<and>
    interpret_result result = Inr reply"
  then show "POST env_key (Inr (request_body b)) generateContent =
        (reply, [ReadBody, GenerateContent (prompt (join '', '' (map ingredient_name b)))])"
    by (simp add: POST_page)
qed

text \<open>The finish reason \<open>MAX_TOKENS\<close>, no finish reason, no candidate, and a recipe.\<close>

theorem interpreter_decision_order_witness:
  "interpret_result \<lparr>response = Some \<lparr>response_text = Inr [],
       candidates = Some [\<lparr>finishReason = Some ''MAX_TOKENS'', safetyRatings = Some ''[]''\<rparr>]\<rparr>\<rparr> =
     Inr (json_error ''Failed to generate recipe.  (Finish Reason: MAX_TOKENS) (Safety Ratings: [])'' 500) \<and>
   interpret_result \<lparr>response = Some \<lparr>response_text = Inr [],
       candidates = Some [\<lparr>finishReason = None, safetyRatings = Some ''[]''\<rparr>]\<rparr>\<rparr> =
     Inr (json_error ''Failed to generate recipe. The AI response was empty or blocked. (Safety Ratings: [])'' 500) \<and>
   interpret_result \<lparr>response = Some \<lparr>response_text = Inr [], candidates = Some []\<rparr>\<rparr> =
     Inr (json_error ''Failed to generate recipe. The AI response was empty or blocked.'' 500) \<and>
   interpret_result \<lparr>response = Some \<lparr>response_text = Inr ''**Chicken & Rice**...'',
       candidates = None\<rparr>\<rparr> =
     Inr (json_recipe ''**Chicken & Rice**...'') \<and>
   fst (POST (Some ''key'') (Inr (request_body [INITIAL_INGREDIENTS ! 0]))
      (provider_returning \<lparr>response = Some \<lparr>response_text = Inr [],
         candidates = Some [\<lparr>finishReason = Some ''SAFETY'', safetyRatings = None\<rparr>]\<rparr>\<rparr>)) =
     json_error ''Failed to generate recipe due to safety settings.'' 500"
proof -
  let ?blocked = "\<lparr>response = Some \<lparr>response_text = Inr [],
         candidates = Some [\<lparr>finishReason = Some ''SAFETY'', safetyRatings = None\<rparr>]\<rparr>\<rparr>"
  let ?reply = "json_error ''Failed to generate recipe due to safety settings.'' 500"
  note D = interpreter_decision_order [where reason = "''MAX_TOKENS''" and ratings = "Some ''[]''"
      and cs = "[]" and absent = None and none = "Some []" and rendered = "''[]''"
      and answer = "''**Chicken & Rice**...''" and any = None
      and env_key = None and b = "[]" and generateContent = "provider_throwing ThrownOther"
      and result = ?blocked and reply = ?reply]
  from D [THEN conjunct2] have four:
    "interpret_result \<lparr>response = Some \<lparr>response_text = Inr [],
       candidates = Some [\<lparr>finishReason = Some ''MAX_TOKENS'', safetyRatings = Some ''[]''\<rparr>]\<rparr>\<rparr> =
     Inr (json_error ''Failed to generate recipe.  (Finish Reason: MAX_TOKENS) (Safety Ratings: [])'' 500) \<and>
     interpret_result \<lparr>response = Some \<lparr>response_text = Inr [],
       candidates = Some [\<lparr>finishReason = None, safetyRatings = Some ''[]''\<rparr>]\<rparr>\<rparr> =
     Inr (json_error ''Failed to generate recipe. The AI response was empty or blocked. (Safety Ratings: [])'' 500) \<and>
     interpret_result \<lparr>response = Some \<lparr>response_text = Inr [], candidates = Some []\<rparr>\<rparr> =
     Inr (json_error ''Failed to generate recipe. The AI response was empty or blocked.'' 500) \<and>
     interpret_result \<lparr>response = Some \<lparr>response_text = Inr ''**Chicken & Rice**...'',
       candidates = None\<rparr>\<rparr> =
     Inr (json_recipe ''**Chicken & Rice**...'')"
    by simp
  note E = interpreter_decision_order [where ratings = None and cs = "[]" and rendered = "[]"
      and reason = "''MAX_TOKENS''" and absent = None and none = None
      and answer = "''**Chicken & Rice**...''" and any = None
      and env_key = "Some ''key''" and b = "[INITIAL_INGREDIENTS ! 0]"
      and generateContent = "provider_returning ?blocked" and result = ?blocked and reply = ?reply]
  from E [THEN conjunct2, THEN conjunct2, THEN conjunct1]
  have blocked: "interpret_result ?blocked = Inr ?reply"
    by (simp add: safetyInfo_def)
  have key: "API_KEY (Some ''key'') \<noteq> []"
    by (simp add: API_KEY_def)
  have "API_KEY (Some ''key'') \<noteq> [] \<and> [INITIAL_INGREDIENTS ! 0] \<noteq> [] \<and>
    provider_returning ?blocked (prompt (join '', '' (map ingredient_name [INITIAL_INGREDIENTS ! 0]))) =
      Inr ?blocked \<and>
    interpret_result ?blocked = Inr ?reply"
    using key blocked by (simp add: provider_returning_def)
  with E [THEN conjunct1]
  have "POST (Some ''key'') (Inr (request_body [INITIAL_INGREDIENTS ! 0]))
      (provider_returning ?blocked) =
    (?reply, [ReadBody, GenerateContent (prompt (join '', '' (map ingredient_name [INITIAL_INGREDIENTS ! 0])))])"
    by (rule mp)
  then have route: "fst (POST (Some ''key'') (Inr (request_body [INITIAL_INGREDIENTS ! 0]))
      (provider_returning ?blocked)) = ?reply"
    by simp
  from four route show ?thesis
    by (elim conjE) (intro conjI; assumption)
qed

section \<open>Properties of the generate action\<close>

lemma received_ok: "ok r \<Longrightarrow> received (Responded r) = Inr (body r)"
  by (simp add: received_def)

lemma route_page:
  "API_KEY env_key \<noteq> [] \<Longrightarrow> b \<noteq> [] \<Longrightarrow>
   route env_key gen (request_body b) =
     Responded
       (case gen (prompt (join '', '' (map ingredient_name b))) of
          Inl e \<Rightarrow> catch_reply e
        | Inr result \<Rightarrow>
            (case interpret_result result of Inl e \<Rightarrow> catch_reply e | Inr reply \<Rightarrow> reply))"
  by (simp add: route_def POST_page)

text \<open>
  Claim C6. With an empty basket the handler only sets the error message: it refuses in
  its first part, sends no request, and leaves the busy flag, the basket and the history
  as they were.
\<close>

theorem empty_basket_refused:
  "basket s = [] \<Longrightarrow>
   handleGenerateRecipe_begin s =
     Refused (s\<lparr>error := Some ''Your basket is empty. Add some ingredients first!''\<rparr>) \<and>
   handleGenerateRecipe s network now_id now_date =
     (s\<lparr>error := Some ''Your basket is empty. Add some ingredients first!''\<rparr>, []) \<and>
   isGenerating (fst (handleGenerateRecipe s network now_id now_date)) = isGenerating s \<and>
   snd (handleGenerateRecipe s network now_id now_date) = []"
  by (simp add: handleGenerateRecipe_def handleGenerateRecipe_begin_def)

text \<open>Scenario B: the initial state, whose basket is empty.\<close>

theorem empty_basket_refused_witness:
  "basket (initial_state 0) = [] \<and>
   handleGenerateRecipe (initial_state 0)
       (route (Some ''key'') (provider_throwing ThrownOther)) 1 2 =
     ((initial_state 0)\<lparr>error := Some ''Your basket is empty. Add some ingredients first!''\<rparr>, []) \<and>
   isGenerating (fst (handleGenerateRecipe (initial_state 0)
       (route (Some ''key'') (provider_throwing ThrownOther)) 1 2)) = False"
proof -
  have e: "basket (initial_state 0) = []"
    by (simp add: initial_state_def)
  have g: "isGenerating (initial_state 0) = False"
    by (simp add: initial_state_def)
  from empty_basket_refused [OF e, of "route (Some ''key'') (provider_throwing ThrownOther)" 1 2]
  show ?thesis
    using e g by simp
qed

text \<open>
  Claim C1. When the reply arrives and is ok, the handler puts a new recipe in front of
  the history, whose ingredients are the basket it was called with, empties the basket,
  clears the busy flag and leaves no error; one request was sent. The same holds for the
  second part of the handler run on any state \<open>later\<close> current when the reply arrives.
\<close>

theorem generate_success:
  assumes "basket s \<noteq> []"
    and "network (request_body (basket s)) = Responded r"
    and "ok r"
  shows "handleGenerateRecipe s network now_id now_date =
      (s\<lparr>error := None,
         recipeHistory :=
           \<lparr>recipe_id = ''recipe_'' @ decimal now_id, ingredientsUsed = basket s,
            recipeText = body_recipeText (body r), generatedAt = int now_date\<rparr> # recipeHistory s,
         basket := [], isGenerating := False\<rparr>,
       [request_body (basket s)]) \<and>
    handleGenerateRecipe_resume (basket s) (Responded r) now_id now_date later =
      later\<lparr>recipeHistory :=
           \<lparr>recipe_id = ''recipe_'' @ decimal now_id, ingredientsUsed = basket s,
            recipeText = body_recipeText (body r), generatedAt = int now_date\<rparr> # recipeHistory later,
         basket := [], isGenerating := False\<rparr>"
  using assms
  by (simp add: handleGenerateRecipe_def handleGenerateRecipe_begin_def
      handleGenerateRecipe_resume_def received_ok Let_def)

text \<open>Scenario A: a basket of chicken and rice, a provider that returns a recipe.\<close>

theorem generate_success_witness:
  "basket ((initial_state 0)\<lparr>basket := [INITIAL_INGREDIENTS ! 0, INITIAL_INGREDIENTS ! 1]\<rparr>) \<noteq> [] \<and>
   route (Some ''key'')
       (provider_returning \<lparr>response = Some \<lparr>response_text = Inr ''**Chicken & Rice**...'',
          candidates = None\<rparr>\<rparr>)
       (request_body [INITIAL_INGREDIENTS ! 0, INITIAL_INGREDIENTS ! 1]) =
     Responded (json_recipe ''**Chicken & Rice**...'') \<and>
   ok (json_recipe ''**Chicken & Rice**...'') \<and>
   handleGenerateRecipe
       ((initial_state 0)\<lparr>basket := [INITIAL_INGREDIENTS ! 0, INITIAL_INGREDIENTS ! 1]\<rparr>)
       (route (Some ''key'')
          (provider_returning \<lparr>response = Some \<lparr>response_text = Inr ''**Chicken & Rice**...'',
             candidates = None\<rparr>\<rparr>)) 1 2 =
     ((initial_state 0)\<lparr>recipeHistory :=
          \<lparr>recipe_id = ''recipe_1'',
           ingredientsUsed = [INITIAL_INGREDIENTS ! 0, INITIAL_INGREDIENTS ! 1],
           recipeText = Some ''**Chicken & Rice**...'', generatedAt = 2\<rparr> #
          INITIAL_RECIPE_HISTORY 0\<rparr>,
      [request_body [INITIAL_INGREDIENTS ! 0, INITIAL_INGREDIENTS ! 1]])"
proof -
  let ?b = "[INITIAL_INGREDIENTS ! 0, INITIAL_INGREDIENTS ! 1]"
  let ?s = "(initial_state 0)\<lparr>basket := ?b\<rparr>"
  let ?net = "route (Some ''key'')
       (provider_returning \<lparr>response = Some \<lparr>response_text = Inr ''**Chicken & Rice**...'',
          candidates = None\<rparr>\<rparr>)"
  have b: "basket ?s = ?b"
    by simp
  have ne: "basket ?s \<noteq> []"
    by simp
  have key: "API_KEY (Some ''key'') \<noteq> []"
    by (simp add: API_KEY_def)
  have "?net (request_body ?b) = Responded (json_recipe ''**Chicken & Rice**...'')"
    using route_page [OF key, of ?b]
    by (simp add: provider_returning_def interpret_result_def)
  then have net: "?net (request_body (basket ?s)) = Responded (json_recipe ''**Chicken & Rice**...'')"
    unfolding b .
  have good: "ok (json_recipe ''**Chicken & Rice**...'')"
    by (simp add: ok_def json_recipe_def)
  have one: "decimal 1 = ''1''"
    by (simp add: digit_def)
  from generate_success [where s = ?s and network = ?net
      and r = "json_recipe ''**Chicken & Rice**...''" and now_id = 1 and now_date = 2 and later = ?s,
      OF ne net good]
  have run: "handleGenerateRecipe ?s ?net 1 2 =
     ((initial_state 0)\<lparr>recipeHistory :=
          \<lparr>recipe_id = ''recipe_1'', ingredientsUsed = ?b,
           recipeText = Some ''**Chicken & Rice**...'', generatedAt = 2\<rparr> #
          INITIAL_RECIPE_HISTORY 0\<rparr>,
      [request_body ?b])"
    unfolding b one by (simp add: initial_state_def json_recipe_def)
  from ne net [unfolded b] good run show ?thesis
    by (intro conjI)
qed

text \<open>
  Claim C2. When the request fails (the fetch rejects, or the reply is not ok), the
  handler leaves the basket and the history as they were, clears the busy flag and sets a
  non-empty error message: the error text of the reply when it has one, the message of the
  rejection when it is not empty.
\<close>

theorem generate_failure:
  assumes "basket s \<noteq> []"
    and "network (request_body (basket s)) = Rejected m \<or>
         (network (request_body (basket s)) = Responded r \<and> \<not> ok r)"
  shows "basket (fst (handleGenerateRecipe s network now_id now_date)) = basket s \<and>
    recipeHistory (fst (handleGenerateRecipe s network now_id now_date)) = recipeHistory s \<and>
    isGenerating (fst (handleGenerateRecipe s network now_id now_date)) = False \<and>
    (\<exists>e. error (fst (handleGenerateRecipe s network now_id now_date)) = Some e \<and> e \<noteq> []) \<and>
    (network (request_body (basket s)) = Responded r \<and> body_error (body r) = Some e \<and> e \<noteq> [] \<longrightarrow>
       error (fst (handleGenerateRecipe s network now_id now_date)) = Some e) \<and>
    (network (request_body (basket s)) = Rejected m \<and> m \<noteq> [] \<longrightarrow>
       error (fst (handleGenerateRecipe s network now_id now_date)) = Some m)"
  using assms
  by (auto simp add: handleGenerateRecipe_def handleGenerateRecipe_begin_def
      handleGenerateRecipe_resume_def received_def truthy_def or_empty_def
      split: option.splits)

text \<open>
  Scenario C: the provider answers without text, with finish reason \<open>SAFETY\<close>; and
  a fetch that is rejected.
\<close>

theorem generate_failure_witness:
  "basket ((initial_state 0)\<lparr>basket := [INITIAL_INGREDIENTS ! 0]\<rparr>) \<noteq> [] \<and>
   route (Some ''key'')
       (provider_returning \<lparr>response = Some \<lparr>response_text = Inr [],
          candidates = Some [\<lparr>finishReason = Some ''SAFETY'', safetyRatings = None\<rparr>]\<rparr>\<rparr>)
       (request_body [INITIAL_INGREDIENTS ! 0]) =
     Responded (json_error ''Failed to generate recipe due to safety settings.'' 500) \<and>
   \<not> ok (json_error ''Failed to generate recipe due to safety settings.'' 500) \<and>
   basket (fst (handleGenerateRecipe
       ((initial_state 0)\<lparr>basket := [INITIAL_INGREDIENTS ! 0]\<rparr>)
       (route (Some ''key'')
         (provider_returning \<lparr>response = Some \<lparr>response_text = Inr [],
            candidates = Some [\<lparr>finishReason = Some ''SAFETY'', safetyRatings = None\<rparr>]\<rparr>\<rparr>))
       1 2)) = [INITIAL_INGREDIENTS ! 0] \<and>
   recipeHistory (fst (handleGenerateRecipe
       ((initial_state 0)\<lparr>basket := [INITIAL_INGREDIENTS ! 0]\<rparr>)
       (route (Some ''key'')
         (provider_returning \<lparr>response = Some \<lparr>response_text = Inr [],
            candidates = Some [\<lparr>finishReason = Some ''SAFETY'', safetyRatings = None\<rparr>]\<rparr>\<rparr>))
       1 2)) = INITIAL_RECIPE_HISTORY 0 \<and>
   error (fst (handleGenerateRecipe
       ((initial_state 0)\<lparr>basket := [INITIAL_INGREDIENTS ! 0]\<rparr>)
       (route (Some ''key'')
         (provider_returning \<lparr>response = Some \<lparr>response_text = Inr [],
            candidates = Some [\<lparr>finishReason = Some ''SAFETY'', safetyRatings = None\<rparr>]\<rparr>\<rparr>))
       1 2)) = Some ''Failed to generate recipe due to safety settings.'' \<and>
   unreachable ''Failed to fetch'' (request_body [INITIAL_INGREDIENTS ! 0]) =
     Rejected ''Failed to fetch'' \<and>
   basket (fst (handleGenerateRecipe
       ((initial_state 0)\<lparr>basket := [INITIAL_INGREDIENTS ! 0]\<rparr>)
       (unreachable ''Failed to fetch'') 1 2)) = [INITIAL_INGREDIENTS ! 0] \<and>
   error (fst (handleGenerateRecipe
       ((initial_state 0)\<lparr>basket := [INITIAL_INGREDIENTS ! 0]\<rparr>)
       (unreachable ''Failed to fetch'') 1 2)) = Some ''Failed to fetch''"
proof -
  let ?b = "[INITIAL_INGREDIENTS ! 0]"
  let ?s = "(initial_state 0)\<lparr>basket := ?b\<rparr>"
  let ?net = "route (Some ''key'')
       (provider_returning \<lparr>response = Some \<lparr>response_text = Inr [],
          candidates = Some [\<lparr>finishReason = Some ''SAFETY'', safetyRatings = None\<rparr>]\<rparr>\<rparr>)"
  let ?reply = "json_error ''Failed to generate recipe due to safety settings.'' 500"
  have b: "basket ?s = ?b"
    by simp
  have ne: "basket ?s \<noteq> []"
    by simp
  have key: "API_KEY (Some ''key'') \<noteq> []"
    by (simp add: API_KEY_def)
  have net: "?net (request_body ?b) = Responded ?reply"
    using route_page [OF key, of ?b]
    by (simp add: provider_returning_def interpret_result_def no_text_reply_eq
        first_candidate_def errorMessage_def safetyInfo_def)
  have bad: "\<not> ok ?reply"
    by (simp add: ok_def json_error_def)
  have hyp: "?net (request_body (basket ?s)) = Rejected [] \<or>
      (?net (request_body (basket ?s)) = Responded ?reply \<and> \<not> ok ?reply)"
    unfolding b using net bad by simp
  have msg: "body_error (body ?reply) = Some ''Failed to generate recipe due to safety settings.''"
    by (simp add: json_error_def)
  note F = generate_failure [where s = ?s and network = ?net and m = "[]" and r = ?reply
      and now_id = 1 and now_date = 2
      and e = "''Failed to generate recipe due to safety settings.''", OF ne hyp]
  from F have f1: "basket (fst (handleGenerateRecipe ?s ?net 1 2)) = ?b"
    unfolding b by (rule conjunct1)
  from F have f2: "recipeHistory (fst (handleGenerateRecipe ?s ?net 1 2)) = INITIAL_RECIPE_HISTORY 0"
    by (simp add: initial_state_def)
  from F net msg have f3: "error (fst (handleGenerateRecipe ?s ?net 1 2)) =
      Some ''Failed to generate recipe due to safety settings.''"
    unfolding b by simp
  have down: "unreachable ''Failed to fetch'' (request_body ?b) = Rejected ''Failed to fetch''"
    by (simp add: unreachable_def)
  have hyp': "unreachable ''Failed to fetch'' (request_body (basket ?s)) = Rejected ''Failed to fetch'' \<or>
      (unreachable ''Failed to fetch'' (request_body (basket ?s)) = Responded ?reply \<and> \<not> ok ?reply)"
    unfolding b using down by simp
  note G = generate_failure [where s = ?s and network = "unreachable ''Failed to fetch''"
      and m = "''Failed to fetch''" and r = ?reply and now_id = 1 and now_date = 2
      and e = "[]", OF ne hyp']
  from G have g1: "basket (fst (handleGenerateRecipe ?s (unreachable ''Failed to fetch'') 1 2)) = ?b"
    unfolding b by (rule conjunct1)
  from G down have g3: "error (fst (handleGenerateRecipe ?s (unreachable ''Failed to fetch'') 1 2)) =
      Some ''Failed to fetch''"
    unfolding b by simp
  from ne net bad f1 f2 f3 down g1 g3 show ?thesis
    by (intro conjI)
qed

section \<open>Properties of the catalog search\<close>

lemma of_char_lower:
  "(of_char (lower_char c) :: nat) = (if capital c then of_char c + 32 else of_char c)"
proof (cases "capital c")
  case True
  then have "(of_char c :: nat) + 32 < 256"
    by (auto simp: capital_def Let_def)
  with True show ?thesis
    by (simp add: lower_char_def)
next
  case False
  then show ?thesis by (simp add: lower_char_def)
qed

lemma capital_iff_small:
  "capital c \<longleftrightarrow>
     (97 \<le> (of_char c :: nat) + 32 \<and> (of_char c :: nat) + 32 \<le> 122) \<or>
     (224 \<le> (of_char c :: nat) + 32 \<and> (of_char c :: nat) + 32 \<le> 246) \<or>
     (248 \<le> (of_char c :: nat) + 32 \<and> (of_char c :: nat) + 32 \<le> 254)"
  unfolding capital_def Let_def by arith

lemma capital_of_iff:
  "capital_of c d \<longleftrightarrow> capital c \<and> (of_char d :: nat) = of_char c + 32"
  unfolding capital_of_def Let_def capital_iff_small by auto

lemma capital_of_not_capital: "capital_of c d \<Longrightarrow> \<not> capital d"
  unfolding capital_of_def capital_def Let_def by arith

lemma lower_char_same_letter: "lower_char c = lower_char d \<longleftrightarrow> same_letter c d"
proof -
  have eq: "lower_char c = lower_char d \<longleftrightarrow>
      (of_char (lower_char c) :: nat) = of_char (lower_char d)"
    by simp
  have cd: "c = d \<longleftrightarrow> (of_char c :: nat) = of_char d"
    by simp
  show ?thesis
  proof (cases "capital c")
    case c: True
    show ?thesis
    proof (cases "capital d")
      case True
      with c capital_of_not_capital [of c d] capital_of_not_capital [of d c]
      show ?thesis
        unfolding eq of_char_lower same_letter_def cd by auto
    next
      case False
      with c capital_of_not_capital [of d c]
      show ?thesis
        unfolding eq of_char_lower same_letter_def cd capital_of_iff by auto
    qed
  next
    case c: False
    show ?thesis
    proof (cases "capital d")
      case True
      with c capital_of_not_capital [of c d]
      show ?thesis
        unfolding eq of_char_lower same_letter_def cd capital_of_iff by auto
    next
      case False
      with c show ?thesis
        unfolding eq of_char_lower same_letter_def cd capital_of_iff by auto
    qed
  qed
qed

lemma starts_ignoring_case_prefix:
  "starts_ignoring_case t n \<longleftrightarrow> prefix (toLowerCase t) (toLowerCase n)"
  by (induction t n rule: starts_ignoring_case.induct)
    (simp_all add: toLowerCase_def lower_char_same_letter)

lemma occurs_ignoring_case_sublist:
  "occurs_ignoring_case t n \<longleftrightarrow> sublist (toLowerCase t) (toLowerCase n)"
proof (induction n)
  case Nil
  show ?case by (simp add: toLowerCase_def)
next
  case (Cons d ds)
  have "sublist (toLowerCase t) (toLowerCase (d # ds)) \<longleftrightarrow>
      prefix (toLowerCase t) (toLowerCase (d # ds)) \<or> sublist (toLowerCase t) (toLowerCase ds)"
    by (simp add: toLowerCase_def sublist_Cons_right)
  with Cons show ?case
    by (simp add: starts_ignoring_case_prefix)
qed

lemma sublist_toLowerCase: "sublist t n \<Longrightarrow> sublist (toLowerCase t) (toLowerCase n)"
  unfolding toLowerCase_def by (rule map_mono_sublist)

lemma filteredIngredients_spec:
  "filteredIngredients s =
     filter (\<lambda>i. occurs_ignoring_case (searchTerm s) (ingredient_name i)) (ingredients s)"
  by (simp add: filteredIngredients_def includes_str_def occurs_ignoring_case_sublist)

text \<open>
  Claim C9. The rendered list is computed from the state and changes nothing. It is the
  catalog, in its order, filtered by the case-insensitive substring match of the search
  term in the name. So the empty term keeps the whole catalog, the term \<open>CHICK\<close> keeps
  an ingredient named \<open>Chicken\<close>, two terms that differ only in the case of their
  letters keep the same ingredients, and a term that occurs in a name keeps it.
\<close>

theorem search_case_insensitive:
  "filteredIngredients s =
     filter (\<lambda>i. occurs_ignoring_case (searchTerm s) (ingredient_name i)) (ingredients s) \<and>
   filteredIngredients (s\<lparr>searchTerm := []\<rparr>) = ingredients s \<and>
   (i \<in> set (ingredients s) \<and> ingredient_name i = ''Chicken'' \<longrightarrow>
      i \<in> set (filteredIngredients (s\<lparr>searchTerm := ''CHICK''\<rparr>))) \<and>
   set (filteredIngredients s) =
     {i \<in> set (ingredients s).
        sublist (toLowerCase (searchTerm s)) (toLowerCase (ingredient_name i))} \<and>
   subseq (filteredIngredients s) (ingredients s) \<and>
   (toLowerCase t = toLowerCase t' \<longrightarrow>
      filteredIngredients (s\<lparr>searchTerm := t\<rparr>) = filteredIngredients (s\<lparr>searchTerm := t'\<rparr>)) \<and>
   (i \<in> set (ingredients s) \<and> sublist t (ingredient_name i) \<longrightarrow>
      i \<in> set (filteredIngredients (s\<lparr>searchTerm := t\<rparr>))) \<and>
   (length t = length t' \<and> (\<forall>k < length t. same_letter (t ! k) (t' ! k)) \<longrightarrow>
      filteredIngredients (s\<lparr>searchTerm := t\<rparr>) = filteredIngredients (s\<lparr>searchTerm := t'\<rparr>))"
proof (intro conjI impI)
  show "filteredIngredients s =
     filter (\<lambda>i. occurs_ignoring_case (searchTerm s) (ingredient_name i)) (ingredients s)"
    by (rule filteredIngredients_spec)
  show "filteredIngredients (s\<lparr>searchTerm := []\<rparr>) = ingredients s"
    by (simp add: filteredIngredients_def includes_str_def toLowerCase_def)
  show "set (filteredIngredients s) =
     {i \<in> set (ingredients s).
        sublist (toLowerCase (searchTerm s)) (toLowerCase (ingredient_name i))}"
    by (auto simp: filteredIngredients_def includes_str_def)
  show "subseq (filteredIngredients s) (ingredients s)"
    by (simp add: filteredIngredients_def)
next
  assume i: "i \<in> set (ingredients s) \<and> ingredient_name i = ''Chicken''"
  have "occurs_ignoring_case ''CHICK'' ''Chicken''"
    by code_simp
  with i show "i \<in> set (filteredIngredients (s\<lparr>searchTerm := ''CHICK''\<rparr>))"
    by (simp add: filteredIngredients_spec)
next
  assume "toLowerCase t = toLowerCase t'"
  then show "filteredIngredients (s\<lparr>searchTerm := t\<rparr>) = filteredIngredients (s\<lparr>searchTerm := t'\<rparr>)"
    by (simp add: filteredIngredients_def)
next
  assume "i \<in> set (ingredients s) \<and> sublist t (ingredient_name i)"
  then show "i \<in> set (filteredIngredients (s\<lparr>searchTerm := t\<rparr>))"
    by (simp add: filteredIngredients_def includes_str_def sublist_toLowerCase)
next
  assume "length t = length t' \<and> (\<forall>k < length t. same_letter (t ! k) (t' ! k))"
  then have "toLowerCase t = toLowerCase t'"
    by (auto simp: toLowerCase_def list_eq_iff_nth_eq lower_char_same_letter)
  then show "filteredIngredients (s\<lparr>searchTerm := t\<rparr>) = filteredIngredients (s\<lparr>searchTerm := t'\<rparr>)"
    by (simp add: filteredIngredients_def)
qed

text \<open>
  The seeded catalog searched for \<open>CHICK\<close>, for \<open>zz\<close>, which no name contains, and
  for nothing; and a catalog of one name beginning with the capital \<open>0xC9\<close>, searched
  for the same name beginning with the small letter \<open>0xE9\<close>.
\<close>

theorem search_case_insensitive_witness:
  "filteredIngredients ((initial_state 0)\<lparr>searchTerm := ''CHICK''\<rparr>) = [INITIAL_INGREDIENTS ! 0] \<and>
   filteredIngredients ((initial_state 0)\<lparr>searchTerm := ''zz''\<rparr>) = [] \<and>
   filteredIngredients ((initial_state 0)\<lparr>searchTerm := []\<rparr>) = INITIAL_INGREDIENTS \<and>
   filteredIngredients ((initial_state 0)\<lparr>
       ingredients := [\<lparr>ingredient_id = ''13'', ingredient_name = CHR 0xC9 # ''clair''\<rparr>],
       searchTerm := CHR 0xE9 # ''clair''\<rparr>) =
     [\<lparr>ingredient_id = ''13'', ingredient_name = CHR 0xC9 # ''clair''\<rparr>] \<and>
   INITIAL_INGREDIENTS ! 0 \<in> set (ingredients (initial_state 0)) \<and>
   ingredient_name (INITIAL_INGREDIENTS ! 0) = ''Chicken'' \<and>
   INITIAL_INGREDIENTS ! 0 \<in> set (filteredIngredients ((initial_state 0)\<lparr>searchTerm := ''CHICK''\<rparr>))"
proof -
  let ?s = "initial_state 0"
  let ?e = "?s\<lparr>ingredients := [\<lparr>ingredient_id = ''13'', ingredient_name = CHR 0xC9 # ''clair''\<rparr>],
       searchTerm := CHR 0xE9 # ''clair''\<rparr>"
  have a: "filteredIngredients (?s\<lparr>searchTerm := ''CHICK''\<rparr>) = [INITIAL_INGREDIENTS ! 0]"
    unfolding search_case_insensitive [where s = "?s\<lparr>searchTerm := ''CHICK''\<rparr>"
        and i = "INITIAL_INGREDIENTS ! 0" and t = "[]" and t' = "[]", THEN conjunct1]
    by code_simp
  have b: "filteredIngredients (?s\<lparr>searchTerm := ''zz''\<rparr>) = []"
    unfolding search_case_insensitive [where s = "?s\<lparr>searchTerm := ''zz''\<rparr>"
        and i = "INITIAL_INGREDIENTS ! 0" and t = "[]" and t' = "[]", THEN conjunct1]
    by code_simp
  note S = search_case_insensitive [where s = ?s and i = "INITIAL_INGREDIENTS ! 0"
      and t = "[]" and t' = "[]"]
  from S [THEN conjunct2, THEN conjunct1]
  have c: "filteredIngredients (?s\<lparr>searchTerm := []\<rparr>) = INITIAL_INGREDIENTS"
    by (simp add: initial_state_def)
  have d: "filteredIngredients ?e = [\<lparr>ingredient_id = ''13'', ingredient_name = CHR 0xC9 # ''clair''\<rparr>]"
    unfolding search_case_insensitive [where s = ?e
        and i = "INITIAL_INGREDIENTS ! 0" and t = "[]" and t' = "[]", THEN conjunct1]
    by code_simp
  have m: "INITIAL_INGREDIENTS ! 0 \<in> set (ingredients ?s)"
    by (simp add: initial_state_def INITIAL_INGREDIENTS_def)
  have n: "ingredient_name (INITIAL_INGREDIENTS ! 0) = ''Chicken''"
    by (simp add: INITIAL_INGREDIENTS_def)
  from m n have "INITIAL_INGREDIENTS ! 0 \<in> set (ingredients ?s) \<and>
      ingredient_name (INITIAL_INGREDIENTS ! 0) = ''Chicken''" ..
  with S [THEN conjunct2, THEN conjunct2, THEN conjunct1]
  have f: "INITIAL_INGREDIENTS ! 0 \<in> set (filteredIngredients (?s\<lparr>searchTerm := ''CHICK''\<rparr>))"
    by (rule mp)
  from a b c d m n f show ?thesis
    by (intro conjI)
qed

section \<open>Properties of the prompt\<close>

lemma sublist_join: "n \<in> set names \<Longrightarrow> sublist n (join sep names)"
proof (induction sep names rule: join.induct)
  case (1 sep)
  then show ?case by simp
next
  case (2 sep x)
  then show ?case by simp
next
  case (3 sep x y ys)
  show ?case
  proof (cases "n = x")
    case True
    then show ?thesis by simp
  next
    case False
    with "3.prems" have "n \<in> set (y # ys)" by simp
    then have "sublist n (join sep (y # ys))" by (rule "3.IH")
    then show ?thesis by (simp add: sublist_append)
  qed
qed

lemma occurrences_append:
  "t \<noteq> [] \<Longrightarrow> occurrences t a + occurrences t b \<le> occurrences t (a @ b)"
proof (induction a)
  case Nil
  then show ?case by simp
next
  case (Cons c a)
  have "prefix t (c # a) \<Longrightarrow> prefix t (c # a @ b)"
    by (metis append_Cons prefix_prefix)
  with Cons show ?case by auto
qed

lemma occurrences_self: "t \<noteq> [] \<Longrightarrow> 1 \<le> occurrences t t"
  by (cases t) simp_all

lemma occurrences_join:
  "t \<noteq> [] \<Longrightarrow> count_list names t \<le> occurrences t (join sep names)"
proof (induction sep names rule: join.induct)
  case (1 sep)
  then show ?case by simp
next
  case (2 sep x)
  then show ?case using occurrences_self [of t] by auto
next
  case (3 sep x y ys)
  have "count_list [x] t \<le> occurrences t x"
    using occurrences_self [of t] "3.prems" by auto
  moreover have "count_list (y # ys) t \<le> occurrences t (join sep (y # ys))"
    using 3 by simp
  moreover have "occurrences t x + occurrences t (sep @ join sep (y # ys)) \<le>
      occurrences t (x @ sep @ join sep (y # ys))"
    using "3.prems" by (rule occurrences_append)
  moreover have "occurrences t sep + occurrences t (join sep (y # ys)) \<le>
      occurrences t (sep @ join sep (y # ys))"
    using "3.prems" by (rule occurrences_append)
  moreover have "count_list (x # y # ys) t = count_list [x] t + count_list (y # ys) t"
    by simp
  ultimately have "count_list (x # y # ys) t \<le> occurrences t (x @ sep @ join sep (y # ys))"
    by linarith
  then show ?case by simp
qed

lemma occurrences_prompt:
  "t \<noteq> [] \<Longrightarrow> occurrences t names \<le> occurrences t (prompt names)"
proof -
  assume t: "t \<noteq> []"
  have "occurrences t prompt_head + occurrences t (names @ prompt_tail) \<le> occurrences t (prompt names)"
    unfolding prompt_def using t by (rule occurrences_append)
  moreover have "occurrences t names + occurrences t prompt_tail \<le> occurrences t (names @ prompt_tail)"
    using t by (rule occurrences_append)
  ultimately show ?thesis by simp
qed

lemma staples_in_tail: "sublist ''(like salt, pepper, oil, water)'' prompt_tail"
  by code_simp

text \<open>
  The one name \<open>salt\<close> occurs twice in its prompt, once in the list and once in the
  template, which also mentions pepper, not among the names.
\<close>

theorem staples_counterexample:
  "occurrences ''salt'' (prompt (join '', '' [''salt''])) = 2 \<and>
   sublist ''pepper'' (prompt (join '', '' [''salt''])) \<and>
   ''pepper'' \<notin> set [''salt'']"
  by code_simp


text \<open>
  Claim C4, as amended. Every given name occurs in the prompt, at least as often as it
  is listed among the names (a name listed twice occurs twice). The prompt is the fixed
  text of the template around the names joined by \<open>, \<close>, so nothing else in it
  depends on the names; that fixed text itself mentions salt, pepper, oil and water.
\<close>

theorem prompt_mentions_names:
  "(\<forall>n \<in> set names. sublist n (prompt (join '', '' names))) \<and>
   (n \<noteq> [] \<longrightarrow> count_list names n \<le> occurrences n (prompt (join '', '' names))) \<and>
   prompt (join '', '' names) = prompt_head @ join '', '' names @ prompt_tail \<and>
   sublist ''(like salt, pepper, oil, water)'' (prompt (join '', '' names))"
proof (intro conjI ballI impI)
  fix m
  assume "m \<in> set names"
  then have "sublist m (join '', '' names)"
    by (rule sublist_join)
  then show "sublist m (prompt (join '', '' names))"
    by (simp add: prompt_def sublist_append)
next
  assume n: "n \<noteq> []"
  then have "count_list names n \<le> occurrences n (join '', '' names)"
    by (rule occurrences_join)
  also have "\<dots> \<le> occurrences n (prompt (join '', '' names))"
    using n by (rule occurrences_prompt)
  finally show "count_list names n \<le> occurrences n (prompt (join '', '' names))" .
next
  show "prompt (join '', '' names) = prompt_head @ join '', '' names @ prompt_tail"
    by (simp add: prompt_def)
  show "sublist ''(like salt, pepper, oil, water)'' (prompt (join '', '' names))"
    using staples_in_tail by (simp add: prompt_def sublist_append)
qed

text \<open>Scenario A's names, and a name listed twice.\<close>

theorem prompt_mentions_names_witness:
  "sublist ''Chicken'' (prompt (join '', '' [''Chicken'', ''Rice''])) \<and>
   sublist ''Rice'' (prompt (join '', '' [''Chicken'', ''Rice''])) \<and>
   ''Rice'' \<noteq> [] \<and>
   2 \<le> occurrences ''Rice'' (prompt (join '', '' [''Rice'', ''Rice'']))"
proof -
  note P = prompt_mentions_names [where names = "[''Chicken'', ''Rice'']" and n = "''Rice''"]
  from P have "\<forall>n \<in> set [''Chicken'', ''Rice'']. sublist n (prompt (join '', '' [''Chicken'', ''Rice'']))"
    by (rule conjunct1)
  then have a: "sublist ''Chicken'' (prompt (join '', '' [''Chicken'', ''Rice'']))"
    and b: "sublist ''Rice'' (prompt (join '', '' [''Chicken'', ''Rice'']))"
    by simp_all
  have c: "''Rice'' \<noteq> []"
    by simp
  note Q = prompt_mentions_names [where names = "[''Rice'', ''Rice'']" and n = "''Rice''"]
  from Q [THEN conjunct2, THEN conjunct1] c
  have "count_list [''Rice'', ''Rice''] ''Rice'' \<le>
      occurrences ''Rice'' (prompt (join '', '' [''Rice'', ''Rice'']))"
    by (rule mp)
  moreover have "count_list [''Rice'', ''Rice''] ''Rice'' = 2"
    by simp
  ultimately have d: "2 \<le> occurrences ''Rice'' (prompt (join '', '' [''Rice'', ''Rice'']))"
    by (simp only:)
  from a b c d show ?thesis
    by (intro conjI)
qed

end
